theory Spec2Isabelle
  imports Complex_Main
begin

section \<open>Strings\<close>

text \<open>
  A JavaScript string is modelled as a \<^typ>\<open>string\<close>, one \<^typ>\<open>char\<close> per code unit; the
  model holds the code units below 256, that is ASCII and Latin-1. On these,
  \<open>String.prototype.toLowerCase\<close> moves the letters \<open>A\<close> to \<open>Z\<close> and the code units
  \<open>0xC0\<close> to \<open>0xDE\<close> other than the multiplication sign \<open>0xD7\<close> up by 32, and leaves
  every other code unit as it is; the result has the length of the string.
\<close>

definition bs :: char where
  "bs = CHR 0x5C"

definition lt :: char where
  "lt = CHR ''<''"

definition esc :: char where
  "esc = CHR 0x1B"

definition nl :: char where
  "nl = CHR 0x0A"

definition upperCaseUnits :: string where
  "upperCaseUnits = ''ABCDEFGHIJKLMNOPQRSTUVWXYZ'' @ [
      CHR 0xC0, CHR 0xC1, CHR 0xC2, CHR 0xC3, CHR 0xC4, CHR 0xC5, CHR 0xC6, CHR 0xC7,
      CHR 0xC8, CHR 0xC9, CHR 0xCA, CHR 0xCB, CHR 0xCC, CHR 0xCD, CHR 0xCE, CHR 0xCF,
      CHR 0xD0, CHR 0xD1, CHR 0xD2, CHR 0xD3, CHR 0xD4, CHR 0xD5, CHR 0xD6, CHR 0xD8,
      CHR 0xD9, CHR 0xDA, CHR 0xDB, CHR 0xDC, CHR 0xDD, CHR 0xDE]"

definition lowerCaseUnits :: string where
  "lowerCaseUnits = ''abcdefghijklmnopqrstuvwxyz'' @ [
      CHR 0xE0, CHR 0xE1, CHR 0xE2, CHR 0xE3, CHR 0xE4, CHR 0xE5, CHR 0xE6, CHR 0xE7,
      CHR 0xE8, CHR 0xE9, CHR 0xEA, CHR 0xEB, CHR 0xEC, CHR 0xED, CHR 0xEE, CHR 0xEF,
      CHR 0xF0, CHR 0xF1, CHR 0xF2, CHR 0xF3, CHR 0xF4, CHR 0xF5, CHR 0xF6, CHR 0xF8,
      CHR 0xF9, CHR 0xFA, CHR 0xFB, CHR 0xFC, CHR 0xFD, CHR 0xFE]"

definition lowerChar :: "char \<Rightarrow> char" where
  "lowerChar c =
     (case map_of (zip upperCaseUnits lowerCaseUnits) c of
        Some l \<Rightarrow> l
      | None \<Rightarrow> c)"

definition toLowerCase :: "string \<Rightarrow> string" where
  "toLowerCase s = map lowerChar s"

text \<open>\<open>haystack.indexOf(needle) !== -1\<close>, that is \<open>haystack.includes(needle)\<close>.\<close>

fun str_includes :: "string \<Rightarrow> string \<Rightarrow> bool" where
  "str_includes [] needle = (needle = [])"
| "str_includes (c # cs) needle =
     (take (length needle) (c # cs) = needle \<or> str_includes cs needle)"

text \<open>
  \<open>str.replace(re, replacement)\<close> for a global pattern that matches exactly the
  literal \<open>needle\<close>, and a replacement without \<open>$\<close>: the occurrences are replaced from
  left to right, without overlap.
\<close>

function replaceAll :: "string \<Rightarrow> string \<Rightarrow> string \<Rightarrow> string" where
  "replaceAll needle replacement [] = []"
| "replaceAll needle replacement (c # cs) =
     (if needle \<noteq> [] \<and> take (length needle) (c # cs) = needle
      then replacement @ replaceAll needle replacement (drop (length needle) (c # cs))
      else c # replaceAll needle replacement cs)"
  by pat_completeness auto
termination
  by (relation "measure (\<lambda>(n, r, s). length s)") (auto simp: neq_Nil_conv)

text \<open>Decimal digits of a number, as \<open>Array.prototype.join\<close> prints an ANSI code.\<close>

fun showNat :: "nat \<Rightarrow> string" where
  "showNat n =
     (if n < 10 then [char_of (48 + n)]
      else showNat (n div 10) @ [char_of (48 + n mod 10)])"

declare showNat.simps [simp del]

fun join :: "string \<Rightarrow> string list \<Rightarrow> string" where
  "join sep [] = []"
| "join sep [x] = x"
| "join sep (x # y # ys) = x @ sep @ join sep (y # ys)"

section \<open>OutputFormatterStyle\<close>

text \<open>
  The tables of ANSI codes are object literals, and so is the registry of styles of the
  formatter. A lookup \<open>table[key]\<close> in such an object finds the properties of the
  object itself and, under the names below, what the object inherits from
  \<open>Object.prototype\<close>: a function for each name but \<open>__proto__\<close>, and the prototype
  object itself for \<open>__proto__\<close>. All of these are truthy.
\<close>

definition objectPrototypeKeys :: "string list" where
  "objectPrototypeKeys =
     [''constructor'', ''__defineGetter__'', ''__defineSetter__'', ''hasOwnProperty'',
      ''__lookupGetter__'', ''__lookupSetter__'', ''isPrototypeOf'', ''propertyIsEnumerable'',
      ''toString'', ''valueOf'', ''toLocaleString'', ''__proto__'']"

text \<open>
  What a lookup in a table of ANSI codes gives: an entry of the table, with its \<open>set\<close>
  and \<open>unset\<close> codes, or the inherited member of that name, which has neither property.
  Two lookups of one name give the same object.
\<close>

datatype AnsiCodeConfig = AnsiCode nat nat | InheritedCode string

fun setCode :: "AnsiCodeConfig \<Rightarrow> nat option" where
  "setCode (AnsiCode s u) = Some s"
| "setCode (InheritedCode key) = None"

fun unsetCode :: "AnsiCodeConfig \<Rightarrow> nat option" where
  "unsetCode (AnsiCode s u) = Some u"
| "unsetCode (InheritedCode key) = None"

definition lookupCodes :: "(string \<times> AnsiCodeConfig) list \<Rightarrow> string \<Rightarrow> AnsiCodeConfig option" where
  "lookupCodes table key =
     (case map_of table key of
        Some c \<Rightarrow> Some c
      | None \<Rightarrow> if key \<in> set objectPrototypeKeys then Some (InheritedCode key) else None)"

definition availableForegroundColors :: "string \<Rightarrow> AnsiCodeConfig option" where
  "availableForegroundColors = lookupCodes
     [(''black'', AnsiCode 30 39),
      (''red'', AnsiCode 31 39),
      (''green'', AnsiCode 32 39),
      (''yellow'', AnsiCode 33 39),
      (''blue'', AnsiCode 34 39),
      (''magenta'', AnsiCode 35 39),
      (''cyan'', AnsiCode 36 39),
      (''white'', AnsiCode 37 39),
      (''default'', AnsiCode 39 39)]"

definition availableBackgroundColors :: "string \<Rightarrow> AnsiCodeConfig option" where
  "availableBackgroundColors = lookupCodes
     [(''black'', AnsiCode 40 49),
      (''red'', AnsiCode 41 49),
      (''green'', AnsiCode 42 49),
      (''yellow'', AnsiCode 43 49),
      (''blue'', AnsiCode 44 49),
      (''magenta'', AnsiCode 45 49),
      (''cyan'', AnsiCode 46 49),
      (''white'', AnsiCode 47 49),
      (''default'', AnsiCode 49 49)]"

definition availableOptions :: "string \<Rightarrow> AnsiCodeConfig option" where
  "availableOptions = lookupCodes
     [(''bold'', AnsiCode 1 22),
      (''underscore'', AnsiCode 4 24),
      (''blink'', AnsiCode 5 25),
      (''reverse'', AnsiCode 7 27),
      (''dim'', AnsiCode 2 22),
      (''conceal'', AnsiCode 8 28)]"

text \<open>
  The errors raised. \<open>NotAStyle\<close> is no error of the code: it ends a run of \<open>format\<close>
  in which a value that is no style object is about to reach the style stack (see
  \<open>format_step\<close>). What the code does with such a value is not modelled.
\<close>

datatype error = ReferenceError | SyntaxError | TypeError | NotAStyle

record OutputFormatterStyle =
  foreground :: "AnsiCodeConfig option"
  background :: "AnsiCodeConfig option"
  options :: "AnsiCodeConfig list"

text \<open>\<open>new OutputFormatterStyle()\<close>: no colour, no option.\<close>

definition newStyle :: OutputFormatterStyle where
  "newStyle = \<lparr>foreground = None, background = None, options = []\<rparr>"

text \<open>
  \<open>setForeground\<close>, \<open>setBackground\<close> and \<open>setOption\<close> with a name: each raises when
  the lookup in its table is falsy, and stores what the lookup gives.
\<close>

definition setForeground :: "string \<Rightarrow> OutputFormatterStyle \<Rightarrow> error + OutputFormatterStyle" where
  "setForeground color st =
     (case availableForegroundColors color of
        None \<Rightarrow> Inl ReferenceError
      | Some c \<Rightarrow> Inr (st\<lparr>foreground := Some c\<rparr>))"

definition setBackground :: "string \<Rightarrow> OutputFormatterStyle \<Rightarrow> error + OutputFormatterStyle" where
  "setBackground color st =
     (case availableBackgroundColors color of
        None \<Rightarrow> Inl ReferenceError
      | Some c \<Rightarrow> Inr (st\<lparr>background := Some c\<rparr>))"

definition setOption :: "string \<Rightarrow> OutputFormatterStyle \<Rightarrow> error + OutputFormatterStyle" where
  "setOption option st =
     (case availableOptions option of
        None \<Rightarrow> Inl ReferenceError
      | Some c \<Rightarrow>
          Inr (if c \<in> set (options st) then st else st\<lparr>options := options st @ [c]\<rparr>))"

text \<open>
  \<open>Array.prototype.join\<close> prints a number in decimal and \<open>undefined\<close> as the empty
  string.
\<close>

fun showCode :: "nat option \<Rightarrow> string" where
  "showCode None = []"
| "showCode (Some n) = showNat n"

definition apply_style :: "OutputFormatterStyle \<Rightarrow> string \<Rightarrow> string" where
  "apply_style st text =
     (let fg = (case foreground st of None \<Rightarrow> [] | Some c \<Rightarrow> [c]);
          bg = (case background st of None \<Rightarrow> [] | Some c \<Rightarrow> [c]);
          codes = fg @ bg @ options st;
          setCodes = map setCode codes;
          unsetCodes = map unsetCode codes
      in if setCodes = [] then text
         else [esc, CHR ''[''] @ join '';'' (map showCode setCodes) @ ''m'' @ text
              @ [esc, CHR ''[''] @ join '';'' (map showCode unsetCodes) @ ''m'')"

section \<open>OutputFormatterStyleStack\<close>

text \<open>The array \<open>styles\<close> of the stack grows at its end: the top is the last element.\<close>

record OutputFormatterStyleStack =
  stackStyles :: "OutputFormatterStyle list"
  emptyStyle :: OutputFormatterStyle

definition newStack :: OutputFormatterStyleStack where
  "newStack = \<lparr>stackStyles = [], emptyStyle = newStyle\<rparr>"

definition push :: "OutputFormatterStyle \<Rightarrow> OutputFormatterStyleStack \<Rightarrow> OutputFormatterStyleStack" where
  "push st s = s\<lparr>stackStyles := stackStyles s @ [st]\<rparr>"

text \<open>
  The loop of \<open>pop\<close> over \<open>index = length - 1, ..., 0\<close>; the argument is \<open>index + 1\<close>.
\<close>

fun pop_search ::
  "OutputFormatterStyle \<Rightarrow> OutputFormatterStyleStack \<Rightarrow> nat
     \<Rightarrow> (error + OutputFormatterStyle) \<times> OutputFormatterStyleStack" where
  "pop_search st s 0 = (Inl SyntaxError, s)"
| "pop_search st s (Suc index) =
     (let stackedStyle = stackStyles s ! index
      in if apply_style st [] = apply_style stackedStyle []
         then (Inr stackedStyle, s\<lparr>stackStyles := take index (stackStyles s)\<rparr>)
         else pop_search st s index)"

definition pop ::
  "OutputFormatterStyle option \<Rightarrow> OutputFormatterStyleStack
     \<Rightarrow> (error + OutputFormatterStyle) \<times> OutputFormatterStyleStack" where
  "pop style s =
     (if stackStyles s = [] then (Inr (emptyStyle s), s)
      else case style of
             None \<Rightarrow> (Inr (last (stackStyles s)), s\<lparr>stackStyles := butlast (stackStyles s)\<rparr>)
           | Some st \<Rightarrow> pop_search st s (length (stackStyles s)))"

definition getCurrent :: "OutputFormatterStyleStack \<Rightarrow> OutputFormatterStyle" where
  "getCurrent s = (if stackStyles s = [] then emptyStyle s else last (stackStyles s))"

section \<open>OutputFormatter\<close>

text \<open>
  The registry \<open>styles\<close> is an object literal. The map \<open>styles\<close> holds its own
  properties, set by \<open>setStyle\<close> under a lower-cased name. An assignment to the key
  \<open>__proto__\<close> sets no property: it reaches the accessor of \<open>Object.prototype\<close> and
  makes the assigned style the prototype of the registry, which \<open>stylesPrototype\<close>
  records (\<open>None\<close> while the prototype is \<open>Object.prototype\<close>).
\<close>

record OutputFormatter =
  decorated :: bool
  styles :: "string \<rightharpoonup> OutputFormatterStyle"
  stylesPrototype :: "OutputFormatterStyle option"
  styleStack :: OutputFormatterStyleStack

text \<open>
  What a truthy lookup \<open>this.styles[key]\<close> gives: a style, or a member that the
  registry inherits under that key and that is no style.
\<close>

datatype styleValue = Style OutputFormatterStyle | Member string

text \<open>
  The properties of the class \<open>OutputFormatterStyle\<close> that its instances inherit. An
  instance itself holds \<open>options\<close>, always, and \<open>foreground\<close> and \<open>background\<close>,
  which are falsy until a colour is set.
\<close>

definition stylePrototypeKeys :: "string list" where
  "stylePrototypeKeys =
     [''constructor'', ''setForeground'', ''setBackground'', ''setOption'', ''unsetOption'',
      ''setOptions'', ''apply'']"

text \<open>
  \<open>this.styles[key]\<close>, \<open>None\<close> when the value is falsy: the key \<open>__proto__\<close> reads the
  prototype; any other key reads the registry's own property, or else what the prototype
  chain holds under it.
\<close>

definition lookupStyle :: "OutputFormatter \<Rightarrow> string \<Rightarrow> styleValue option" where
  "lookupStyle f key =
     (if key = ''__proto__'' then
        (case stylesPrototype f of
           None \<Rightarrow> Some (Member key)
         | Some p \<Rightarrow> Some (Style p))
      else case styles f key of
        Some style \<Rightarrow> Some (Style style)
      | None \<Rightarrow>
          (case stylesPrototype f of
             None \<Rightarrow> if key \<in> set objectPrototypeKeys then Some (Member key) else None
           | Some p \<Rightarrow>
               if key = ''foreground'' then map_option (\<lambda>c. Member key) (foreground p)
               else if key = ''background'' then map_option (\<lambda>c. Member key) (background p)
               else if key = ''options'' \<or> key \<in> set stylePrototypeKeys
                       \<or> key \<in> set objectPrototypeKeys
               then Some (Member key)
               else None))"

definition setDecorated :: "bool \<Rightarrow> OutputFormatter \<Rightarrow> OutputFormatter" where
  "setDecorated d f = f\<lparr>decorated := d\<rparr>"

definition isDecorated :: "OutputFormatter \<Rightarrow> bool" where
  "isDecorated f = decorated f"

definition setStyle :: "string \<Rightarrow> OutputFormatterStyle \<Rightarrow> OutputFormatter \<Rightarrow> OutputFormatter" where
  "setStyle name style f =
     (let key = toLowerCase name
      in if key = ''__proto__'' then f\<lparr>stylesPrototype := Some style\<rparr>
         else f\<lparr>styles := (styles f)(key \<mapsto> style)\<rparr>)"

definition hasStyle :: "OutputFormatter \<Rightarrow> string \<Rightarrow> bool" where
  "hasStyle f name = (lookupStyle f (toLowerCase name) \<noteq> None)"

text \<open>
  \<open>getStyle\<close> raises when \<open>hasStyle\<close> is false and returns the value of the lookup
  otherwise; the last branch is never taken.
\<close>

definition getStyle :: "OutputFormatter \<Rightarrow> string \<Rightarrow> error + styleValue" where
  "getStyle f name =
     (if \<not> hasStyle f name then Inl ReferenceError
      else case lookupStyle f (toLowerCase name) of
             Some v \<Rightarrow> Inr v
           | None \<Rightarrow> Inl ReferenceError)"

text \<open>
  The constructor with no custom style: \<open>error\<close>, \<open>info\<close>, \<open>comment\<close> and \<open>question\<close>
  are registered, the stack is new.
\<close>

definition styleOf :: "string option \<Rightarrow> string option \<Rightarrow> OutputFormatterStyle" where
  "styleOf fg bg =
     \<lparr>foreground = (case fg of None \<Rightarrow> None | Some c \<Rightarrow> availableForegroundColors c),
      background = (case bg of None \<Rightarrow> None | Some c \<Rightarrow> availableBackgroundColors c),
      options = []\<rparr>"

definition newFormatter :: "bool \<Rightarrow> OutputFormatter" where
  "newFormatter d =
     setStyle ''question'' (styleOf (Some ''black'') (Some ''cyan''))
       (setStyle ''comment'' (styleOf (Some ''yellow'') None)
         (setStyle ''info'' (styleOf (Some ''green'') None)
           (setStyle ''error'' (styleOf (Some ''white'') (Some ''red''))
             \<lparr>decorated = d, styles = Map.empty, stylesPrototype = None,
              styleStack = newStack\<rparr>)))"

subsection \<open>The tag pattern\<close>

text \<open>
  \<open>tagRegex\<close> is \<open>[a-z][a-z0-9,_=;-]*\<close>, matched without regard to case. The class
  after the first letter excludes \<open>>\<close>, so the greedy star can only be followed by
  \<open>>\<close> when it has taken the whole run: the longest run decides the match.
\<close>

definition isTagStart :: "char \<Rightarrow> bool" where
  "isTagStart c \<longleftrightarrow> c \<in> set ''abcdefghijklmnopqrstuvwxyzABCDEFGHIJKLMNOPQRSTUVWXYZ''"

definition isTagChar :: "char \<Rightarrow> bool" where
  "isTagChar c \<longleftrightarrow> isTagStart c \<or> c \<in> set ''0123456789,_=;-''"

definition tagRegex_at :: "string \<Rightarrow> (string \<times> string) option" where
  "tagRegex_at s =
     (case s of
        [] \<Rightarrow> None
      | c # cs \<Rightarrow>
          if isTagStart c then Some (c # takeWhile isTagChar cs, dropWhile isTagChar cs)
          else None)"

text \<open>
  \<open>tagsRegex\<close> is \<open><\<close>, then either \<open>tagRegex\<close> or a slash and an optional
  \<open>tagRegex\<close>, then \<open>>\<close>. A match at the head of \<open>s\<close> gives
  \<open>match[0]\<close>, \<open>match[1]\<close> and \<open>match[3]\<close> (\<open>None\<close> for \<open>undefined\<close>).
\<close>

type_synonym tagMatch = "string \<times> string \<times> string option"

definition tagsRegex_at :: "string \<Rightarrow> tagMatch option" where
  "tagsRegex_at s =
     (case s of
        [] \<Rightarrow> None
      | c # r \<Rightarrow>
          if c \<noteq> lt then None
          else (case tagRegex_at r of
                  Some (name, after) \<Rightarrow>
                    if take 1 after = ''>'' then Some (lt # name @ ''>'', name, None)
                    else None
                | None \<Rightarrow>
                    (case r of
                       [] \<Rightarrow> None
                     | d # r' \<Rightarrow>
                         if d \<noteq> CHR ''/'' then None
                         else (case tagRegex_at r' of
                                 Some (name, after) \<Rightarrow>
                                   if take 1 after = ''>''
                                   then Some (lt # CHR ''/'' # name @ ''>'', CHR ''/'' # name, Some name)
                                   else None
                               | None \<Rightarrow>
                                   if take 1 r' = ''>''
                                   then Some ([lt, CHR ''/'', CHR ''>''], ''/'', None)
                                   else None))))"

text \<open>The leftmost match in \<open>s\<close>, with its index.\<close>

fun regex_search :: "string \<Rightarrow> (nat \<times> tagMatch) option" where
  "regex_search [] = None"
| "regex_search (c # cs) =
     (case tagsRegex_at (c # cs) of
        Some m \<Rightarrow> Some (0, m)
      | None \<Rightarrow> map_option (\<lambda>(i, m). (Suc i, m)) (regex_search cs))"

text \<open>\<open>tagsRegex.exec(message)\<close> with the pattern's \<open>lastIndex\<close>: the match and its index.\<close>

definition tagsRegex_exec :: "string \<Rightarrow> nat \<Rightarrow> (nat \<times> tagMatch) option" where
  "tagsRegex_exec message lastIndex =
     map_option (\<lambda>(i, m). (lastIndex + i, m)) (regex_search (drop lastIndex message))"

subsection \<open>createStyleFromString\<close>

text \<open>
  \<open>styleRegex\<close> is \<open>([^=]+)=([^;]+)(;|$)\<close>. The first group cannot hold \<open>=\<close>, so
  it ends at the first \<open>=\<close>; the second group runs to the next \<open>;\<close> or to the end. A
  match at the head of \<open>s\<close> gives the two groups and the text after the match.
\<close>

definition styleRegex_at :: "string \<Rightarrow> (string \<times> string \<times> string) option" where
  "styleRegex_at s =
     (let g1 = takeWhile (\<lambda>c. c \<noteq> CHR ''='') s;
          r1 = dropWhile (\<lambda>c. c \<noteq> CHR ''='') s
      in if g1 = [] \<or> r1 = [] then None
         else let g2 = takeWhile (\<lambda>c. c \<noteq> CHR '';'') (tl r1);
                  r2 = dropWhile (\<lambda>c. c \<noteq> CHR '';'') (tl r1)
              in if g2 = [] then None else Some (g1, g2, tl r2))"

fun styleRegex_exec :: "string \<Rightarrow> (string \<times> string \<times> string) option" where
  "styleRegex_exec [] = None"
| "styleRegex_exec (c # cs) =
     (case styleRegex_at (c # cs) of
        Some m \<Rightarrow> Some m
      | None \<Rightarrow> styleRegex_exec cs)"

text \<open>\<open>str.match(/([^,;]+)/g)\<close>: the runs of characters between commas and semicolons.\<close>

fun optionRuns :: "string \<Rightarrow> string \<Rightarrow> string list" where
  "optionRuns [] run = (if run = [] then [] else [run])"
| "optionRuns (c # cs) run =
     (if c = CHR '','' \<or> c = CHR '';''
      then (if run = [] then optionRuns cs [] else run # optionRuns cs [])
      else optionRuns cs (run @ [c]))"

text \<open>
  The loop over the options of one clause. \<open>Inr None\<close> is the \<open>return false\<close> of the
  \<open>catch\<close> block.
\<close>

fun setOptions_loop :: "OutputFormatterStyle \<Rightarrow> string list \<Rightarrow> OutputFormatterStyle option" where
  "setOptions_loop st [] = Some st"
| "setOptions_loop st (option # rest) =
     (case setOption option st of
        Inl e \<Rightarrow> None
      | Inr st' \<Rightarrow> setOptions_loop st' rest)"

text \<open>Each match of \<open>styleRegex\<close> consumes text, so the loop over the clauses ends.\<close>

lemma takeWhile_dropWhile_length:
  "length (takeWhile P xs) + length (dropWhile P xs) = length xs"
  by (induction xs) auto

lemma styleRegex_at_shorter:
  assumes "styleRegex_at s = Some (g1, g2, rest)"
  shows "length rest < length s"
proof -
  let ?r1 = "dropWhile (\<lambda>c. c \<noteq> CHR ''='') s"
  let ?r2 = "dropWhile (\<lambda>c. c \<noteq> CHR '';'') (tl ?r1)"
  from assms have r1: "?r1 \<noteq> []" and rest: "rest = tl ?r2"
    by (auto simp: styleRegex_at_def Let_def split: if_splits)
  have "length ?r2 \<le> length (tl ?r1)" by (rule length_dropWhile_le)
  moreover have "length (tl ?r1) < length ?r1" using r1 by (cases ?r1) auto
  moreover have "length ?r1 \<le> length s" by (rule length_dropWhile_le)
  ultimately show ?thesis using rest by simp
qed

lemma styleRegex_exec_shorter:
  "styleRegex_exec s = Some (g1, g2, rest) \<Longrightarrow> length rest < length s"
proof (induction s)
  case Nil
  then show ?case by simp
next
  case (Cons c cs)
  show ?case
  proof (cases "styleRegex_at (c # cs)")
    case None
    with Cons show ?thesis by simp
  next
    case (Some m)
    with Cons.prems have "styleRegex_at (c # cs) = Some (g1, g2, rest)" by simp
    then show ?thesis by (rule styleRegex_at_shorter)
  qed
qed

text \<open>
  The loop of \<open>createStyleFromString\<close> over the clauses of \<open>str\<close>. An unknown colour
  raises out of \<open>setForeground\<close> or \<open>setBackground\<close>: nothing catches it. An options
  clause made of commas only has no run, \<open>match\<close> returns \<open>null\<close> and \<open>Array.from\<close>
  raises a \<open>TypeError\<close>. An unknown option is caught, and so is any other clause name:
  both return \<open>false\<close>, here \<open>Inr None\<close>.
\<close>

function createStyle_loop ::
  "OutputFormatterStyle \<Rightarrow> bool \<Rightarrow> string \<Rightarrow> error + OutputFormatterStyle option" where
  "createStyle_loop style gotMatch s =
     (case styleRegex_exec s of
        None \<Rightarrow> Inr (if gotMatch then Some style else None)
      | Some (g1, g2, rest) \<Rightarrow>
          if g1 = ''fg'' then
            (case setForeground g2 style of
               Inl e \<Rightarrow> Inl e
             | Inr st \<Rightarrow> createStyle_loop st True rest)
          else if g1 = ''bg'' then
            (case setBackground g2 style of
               Inl e \<Rightarrow> Inl e
             | Inr st \<Rightarrow> createStyle_loop st True rest)
          else if g1 = ''options'' then
            (case optionRuns g2 [] of
               [] \<Rightarrow> Inl TypeError
             | name # names \<Rightarrow>
                 (case setOptions_loop style (name # names) of
                    None \<Rightarrow> Inr None
                  | Some st \<Rightarrow> createStyle_loop st True rest))
          else Inr None)"
  by pat_completeness auto
termination
  by (relation "measure (\<lambda>(style, gotMatch, s). length s)")
     (auto dest: styleRegex_exec_shorter)

declare createStyle_loop.simps [simp del]

text \<open>
  \<open>createStyleFromString\<close> returns what the registry holds under \<open>str\<close> when that
  is truthy, a style or not; else the style built from the clauses of \<open>str\<close>, or
  \<open>false\<close>.
\<close>

definition createStyleFromString :: "OutputFormatter \<Rightarrow> string \<Rightarrow> error + styleValue option" where
  "createStyleFromString f str =
     (case lookupStyle f str of
        Some v \<Rightarrow> Inr (Some v)
      | None \<Rightarrow>
          (case createStyle_loop newStyle False str of
             Inl e \<Rightarrow> Inl e
           | Inr None \<Rightarrow> Inr None
           | Inr (Some style) \<Rightarrow> Inr (Some (Style style))))"

subsection \<open>format\<close>

definition applyCurrentStyle :: "OutputFormatter \<Rightarrow> string \<Rightarrow> string" where
  "applyCurrentStyle f text =
     (if isDecorated f \<and> length text > 0 then apply_style (getCurrent (styleStack f)) text
      else text)"

text \<open>A match of \<open>tagsRegex\<close> lies inside the message and is at least \<open></>\<close>.\<close>

lemma tagRegex_at_split:
  "tagRegex_at r = Some (name, after) \<Longrightarrow> r = name @ after \<and> name \<noteq> []"
  by (auto simp: tagRegex_at_def split: list.splits if_splits)

lemma take1_nonempty: "take 1 xs = [c] \<Longrightarrow> 0 < length xs"
  by (cases xs) auto

lemma tagsRegex_at_length:
  assumes "tagsRegex_at s = Some (mtext, m1, m3)"
  shows "3 \<le> length mtext \<and> length mtext \<le> length s"
proof (cases s)
  case Nil
  with assms show ?thesis by (simp add: tagsRegex_at_def)
next
  case (Cons c r)
  show ?thesis
  proof (cases "tagRegex_at r")
    case (Some p)
    obtain name after where p: "p = (name, after)" by (cases p)
    from tagRegex_at_split [of r name after] Some p
    have r: "r = name @ after" "name \<noteq> []" by auto
    from assms Cons Some p have "take 1 after = ''>''" and "mtext = lt # name @ ''>''"
      by (auto simp: tagsRegex_at_def split: if_splits)
    with r Cons show ?thesis
      by (cases name; cases after) auto
  next
    case None
    note noTag = this
    show ?thesis
    proof (cases r)
      case Nil
      with assms Cons noTag show ?thesis by (simp add: tagsRegex_at_def split: if_splits)
    next
      case (Cons d r')
      show ?thesis
      proof (cases "tagRegex_at r'")
        case (Some p)
        obtain name after where p: "p = (name, after)" by (cases p)
        from tagRegex_at_split [of r' name after] Some p
        have r: "r' = name @ after" "name \<noteq> []" by auto
        from assms \<open>s = c # r\<close> Cons noTag Some p
        have "take 1 after = ''>''" and "mtext = lt # CHR ''/'' # name @ ''>''"
          by (auto simp: tagsRegex_at_def split: if_splits)
        with r Cons \<open>s = c # r\<close> show ?thesis
          by (cases name; cases after) auto
      next
        case None
        from assms \<open>s = c # r\<close> Cons noTag None
        have "take 1 r' = ''>''" and "mtext = [lt, CHR ''/'', CHR ''>'']"
          by (auto simp: tagsRegex_at_def split: if_splits)
        with Cons \<open>s = c # r\<close> show ?thesis
          by (cases r') auto
      qed
    qed
  qed
qed

lemma regex_search_length:
  "regex_search s = Some (i, mtext, m1, m3) \<Longrightarrow>
     3 \<le> length mtext \<and> i + length mtext \<le> length s"
proof (induction s arbitrary: i)
  case Nil
  then show ?case by simp
next
  case (Cons c cs)
  show ?case
  proof (cases "tagsRegex_at (c # cs)")
    case None
    with Cons.prems obtain j where "regex_search cs = Some (j, mtext, m1, m3)" and "i = Suc j"
      by (auto split: option.splits)
    with Cons.IH [of j] show ?thesis by simp
  next
    case (Some m)
    with Cons.prems have "tagsRegex_at (c # cs) = Some (mtext, m1, m3)" and "i = 0" by auto
    with tagsRegex_at_length [of "c # cs" mtext m1 m3] show ?thesis by simp
  qed
qed

lemma tagsRegex_exec_bounds:
  assumes "tagsRegex_exec message lastIndex = Some (pos, mtext, m1, m3)"
  shows "lastIndex \<le> pos \<and> 3 \<le> length mtext \<and> pos + length mtext \<le> length message"
proof -
  from assms obtain i where s: "regex_search (drop lastIndex message) = Some (i, mtext, m1, m3)"
    and pos: "pos = lastIndex + i"
    by (auto simp: tagsRegex_exec_def)
  from regex_search_length [OF s] pos show ?thesis by auto
qed

text \<open>
  One turn of the \<open>while\<close> loop of \<open>format\<close>: \<open>offset\<close> and \<open>output\<close> are its
  variables, \<open>lastIndex\<close> is the state of the global pattern. A turn either goes on
  with the next state, or leaves the loop: when no tag is left, with \<open>offset\<close> and
  \<open>output\<close> as they are, and when something raises, with the error. Either way the
  formatter comes with it, as the turn leaves it.

  When the tag resolves to a member that is no style, the code hands that member to the
  style stack. The stack of the model holds styles only, and the turn ends the run with
  \<open>NotAStyle\<close>.
\<close>

datatype loopStep =
  Continue OutputFormatter nat nat string
| Leave "(error + nat \<times> string) \<times> OutputFormatter"

definition format_step ::
  "OutputFormatter \<Rightarrow> string \<Rightarrow> nat \<Rightarrow> nat \<Rightarrow> string \<Rightarrow> loopStep" where
  "format_step f message offset lastIndex output =
     (case tagsRegex_exec message lastIndex of
        None \<Rightarrow> Leave (Inr (offset, output), f)
      | Some (pos, text, m1, m3) \<Rightarrow>
          if 0 \<noteq> pos \<and> message ! (pos - 1) = bs
          then Continue f offset (pos + length text) output
          else
            let output' = output @ applyCurrentStyle f (take (pos - offset) (drop offset message));
                offset' = pos + length text;
                open = (text ! 1 \<noteq> CHR ''/'');
                tag = (if open then m1 else (case m3 of Some t \<Rightarrow> t | None \<Rightarrow> []))
            in case createStyleFromString f (toLowerCase tag) of
                 Inl e \<Rightarrow> Leave (Inl e, f)
               | Inr style \<Rightarrow>
                   if \<not> open \<and> tag = [] then
                     Continue (f\<lparr>styleStack := snd (pop None (styleStack f))\<rparr>)
                       offset' offset' output'
                   else case style of
                     None \<Rightarrow> Continue f offset' offset' (output' @ applyCurrentStyle f text)
                   | Some (Member key) \<Rightarrow> Leave (Inl NotAStyle, f)
                   | Some (Style st) \<Rightarrow>
                       if open then
                         Continue (f\<lparr>styleStack := push st (styleStack f)\<rparr>)
                           offset' offset' output'
                       else case pop (Some st) (styleStack f) of
                         (Inl e, stack') \<Rightarrow> Leave (Inl e, f\<lparr>styleStack := stack'\<rparr>)
                       | (Inr popped, stack') \<Rightarrow>
                           Continue (f\<lparr>styleStack := stack'\<rparr>) offset' offset' output')"

lemma format_step_advances:
  assumes "format_step f message offset lastIndex output = Continue f' offset' lastIndex' output'"
  shows "lastIndex < lastIndex' \<and> lastIndex' \<le> length message"
proof (cases "tagsRegex_exec message lastIndex")
  case None
  with assms show ?thesis by (simp add: format_step_def)
next
  case (Some r)
  obtain pos mtext m1 m3 where r: "r = (pos, mtext, m1, m3)" by (cases r)
  from tagsRegex_exec_bounds [of message lastIndex pos mtext m1 m3] Some r
  have b: "lastIndex \<le> pos" "3 \<le> length mtext" "pos + length mtext \<le> length message"
    by auto
  from assms Some r have "lastIndex' = pos + length mtext"
    by (auto simp: format_step_def Let_def
          split: if_splits sum.splits option.splits prod.splits styleValue.splits)
  with b show ?thesis by simp
qed

function format_loop ::
  "OutputFormatter \<Rightarrow> string \<Rightarrow> nat \<Rightarrow> nat \<Rightarrow> string
     \<Rightarrow> (error + nat \<times> string) \<times> OutputFormatter" where
  "format_loop f message offset lastIndex output =
     (case format_step f message offset lastIndex output of
        Leave result \<Rightarrow> result
      | Continue f' offset' lastIndex' output' \<Rightarrow> format_loop f' message offset' lastIndex' output')"
  by pat_completeness auto
termination
  by (relation "measure (\<lambda>(f, message, offset, lastIndex, output). length message - lastIndex)")
     (auto dest!: format_step_advances)

declare format_loop.simps [simp del]

text \<open>
  \<open>safeReplace\<close> builds a pattern from each key with \<open>new RegExp(key, 'g')\<close>. In such a
  pattern a backslash before a character that is no letter and no digit stands for that
  character, so the pattern of a key made of such characters matches the key without
  its backslashes.
\<close>

fun regExpLiteral :: "string \<Rightarrow> string" where
  "regExpLiteral [] = []"
| "regExpLiteral [c] = [c]"
| "regExpLiteral (c # d # cs) =
     (if c = bs then d # regExpLiteral cs else c # regExpLiteral (d # cs))"

fun safeReplace :: "string \<Rightarrow> (string \<times> string) list \<Rightarrow> string" where
  "safeReplace str [] = str"
| "safeReplace str ((key, replacement) # replacePairs) =
     safeReplace (replaceAll (regExpLiteral key) replacement str) replacePairs"

text \<open>
  The statement after the loop appends the text behind the last tag. \<open>format_scan\<close> is
  \<open>format\<close> up to there: the output before the escapes are resolved.
\<close>

definition format_scan :: "OutputFormatter \<Rightarrow> string \<Rightarrow> (error + string) \<times> OutputFormatter" where
  "format_scan f message =
     (case format_loop f message 0 0 [] of
        (Inl e, f') \<Rightarrow> (Inl e, f')
      | (Inr (offset, output), f') \<Rightarrow>
          (Inr (output @ applyCurrentStyle f' (drop offset message)), f'))"

text \<open>The last statements of \<open>format\<close> resolve the escapes in the whole output.\<close>

definition unescape :: "string \<Rightarrow> string" where
  "unescape output =
     (if str_includes output [lt, lt]
      then safeReplace output [([bs, lt], [lt]), ([lt, lt], [bs])]
      else replaceAll [bs, lt] [lt] output)"

definition format :: "OutputFormatter \<Rightarrow> string \<Rightarrow> (error + string) \<times> OutputFormatter" where
  "format f message =
     (case format_scan f message of
        (Inl e, f') \<Rightarrow> (Inl e, f')
      | (Inr output, f') \<Rightarrow> (Inr (unescape output), f'))"

subsection \<open>escape\<close>

text \<open>
  The global replacement in \<open>escape\<close>: its pattern is an optional character other than
  a backslash, kept as group 1, followed by \<open><\<close>; the replacement is group 1, a
  backslash and \<open><\<close>. At each position the pattern first tries the two characters,
  then \<open><\<close> alone.
\<close>

fun escape_replace :: "string \<Rightarrow> string" where
  "escape_replace [] = []"
| "escape_replace [c] = (if c = lt then [bs, lt] else [c])"
| "escape_replace (c # d # cs) =
     (if c \<noteq> bs \<and> d = lt then c # bs # lt # escape_replace cs
      else if c = lt then bs # lt # escape_replace (d # cs)
      else c # escape_replace (d # cs))"

text \<open>\<open>trimEnd\<close> with a backslash as \<open>charlist\<close> removes the backslashes at the end.\<close>

definition trimEnd_backslash :: "string \<Rightarrow> string" where
  "trimEnd_backslash str = rev (dropWhile (\<lambda>c. c = bs) (rev str))"

definition escapeTrailingBackslash :: "string \<Rightarrow> string" where
  "escapeTrailingBackslash text =
     (if text \<noteq> [] \<and> last text = bs
      then let len = length text; trimmed = trimEnd_backslash text
           in trimmed @ concat (replicate (len - length trimmed) [lt, lt])
      else text)"

definition escape :: "string \<Rightarrow> string" where
  "escape text = escapeTrailingBackslash (escape_replace text)"

section \<open>Helper: removeDecoration and lengthWithoutDecoration\<close>

text \<open>
  The global replacement in \<open>removeDecoration\<close> deletes each ANSI sequence: an escape
  character and an opening bracket, then everything up to the next \<open>m\<close>; without a
  later \<open>m\<close> there is no match.
\<close>

function removeAnsi :: "string \<Rightarrow> string" where
  "removeAnsi [] = []"
| "removeAnsi (c # cs) =
     (if c = esc \<and> take 1 cs = ''['' \<and> CHR ''m'' \<in> set (drop 1 cs)
      then removeAnsi (drop 1 (dropWhile (\<lambda>d. d \<noteq> CHR ''m'') (drop 1 cs)))
      else c # removeAnsi cs)"
  by pat_completeness auto
termination
proof (relation "measure length")
  show "wf (measure length)" by simp
next
  fix c :: char and cs :: string
  have "length (dropWhile (\<lambda>d. d \<noteq> CHR ''m'') (drop 1 cs)) \<le> length (drop 1 cs)"
    by (rule length_dropWhile_le)
  then show "(drop 1 (dropWhile (\<lambda>d. d \<noteq> CHR ''m'') (drop 1 cs)), c # cs) \<in> measure length"
    by simp
next
  fix c :: char and cs :: string
  show "(cs, c # cs) \<in> measure length" by simp
qed

text \<open>
  \<open>removeDecoration\<close> reads the flag, clears it, formats, strips and sets the flag
  back. When \<open>format\<close> raises, the last statement is not reached.
\<close>

definition removeDecoration :: "OutputFormatter \<Rightarrow> string \<Rightarrow> (error + string) \<times> OutputFormatter" where
  "removeDecoration formatter str =
     (let wasDecorated = isDecorated formatter;
          f1 = setDecorated False formatter
      in case format f1 str of
           (Inl e, f2) \<Rightarrow> (Inl e, f2)
         | (Inr str', f2) \<Rightarrow> (Inr (removeAnsi str'), setDecorated wasDecorated f2))"

definition lengthWithoutDecoration :: "OutputFormatter \<Rightarrow> string \<Rightarrow> (error + nat) \<times> OutputFormatter" where
  "lengthWithoutDecoration formatter str =
     (case removeDecoration formatter str of
        (Inl e, f') \<Rightarrow> (Inl e, f')
      | (Inr s, f') \<Rightarrow> (Inr (length s), f'))"

section \<open>ProgressBar\<close>

text \<open>
  A JavaScript number is a double: \<open>NaN\<close>, one of the two infinities, or a finite
  value. The finite doubles are modelled as reals, the two zeros as the one real 0.
  The comparisons, \<open>===\<close>, truthiness, \<open>Math.max\<close> and \<open>Math.round\<close> are exact on
  doubles and are defined here as JavaScript has them; every comparison with \<open>NaN\<close> is
  false.
\<close>

datatype number = NaN | NegInfinity | Finite real | PosInfinity

definition truthy :: "number \<Rightarrow> bool" where
  "truthy x \<longleftrightarrow> x \<noteq> NaN \<and> x \<noteq> Finite 0"

fun lessThan_number :: "number \<Rightarrow> number \<Rightarrow> bool" where
  "lessThan_number (Finite a) (Finite b) = (a < b)"
| "lessThan_number NegInfinity (Finite b) = True"
| "lessThan_number NegInfinity PosInfinity = True"
| "lessThan_number (Finite a) PosInfinity = True"
| "lessThan_number x y = False"

definition greaterThan_number :: "number \<Rightarrow> number \<Rightarrow> bool" where
  "greaterThan_number x y = lessThan_number y x"

definition strictEquals :: "number \<Rightarrow> number \<Rightarrow> bool" where
  "strictEquals x y \<longleftrightarrow> x \<noteq> NaN \<and> x = y"

definition lessEq_number :: "number \<Rightarrow> number \<Rightarrow> bool" where
  "lessEq_number x y \<longleftrightarrow> lessThan_number x y \<or> strictEquals x y"

definition mathMax :: "number \<Rightarrow> number \<Rightarrow> number" where
  "mathMax x y = (if x = NaN \<or> y = NaN then NaN else if lessThan_number x y then y else x)"

fun mathRound :: "number \<Rightarrow> number" where
  "mathRound (Finite a) = Finite (of_int (round a))"
| "mathRound x = x"

text \<open>
  A sum and a quotient of doubles are rounded. The model takes the two operations as
  given functions and depends on nothing about their values, so what is proved of it
  holds of double arithmetic.
\<close>

record arithmetic =
  addNumbers :: "number \<Rightarrow> number \<Rightarrow> number"
  divideNumbers :: "number \<Rightarrow> number \<Rightarrow> number"

text \<open>
  The arithmetic without rounding, for the examples: it is double arithmetic wherever
  the exact result is a double, as it is for the small integers used below. Zero as a
  divisor is taken as positive zero.
\<close>

fun exactAdd :: "number \<Rightarrow> number \<Rightarrow> number" where
  "exactAdd (Finite a) (Finite b) = Finite (a + b)"
| "exactAdd NaN y = NaN"
| "exactAdd x NaN = NaN"
| "exactAdd PosInfinity NegInfinity = NaN"
| "exactAdd NegInfinity PosInfinity = NaN"
| "exactAdd PosInfinity y = PosInfinity"
| "exactAdd x PosInfinity = PosInfinity"
| "exactAdd NegInfinity y = NegInfinity"
| "exactAdd x NegInfinity = NegInfinity"

fun exactDivide :: "number \<Rightarrow> number \<Rightarrow> number" where
  "exactDivide (Finite a) (Finite b) =
     (if b \<noteq> 0 then Finite (a / b)
      else if a = 0 then NaN else if 0 < a then PosInfinity else NegInfinity)"
| "exactDivide NaN y = NaN"
| "exactDivide x NaN = NaN"
| "exactDivide (Finite a) y = Finite 0"
| "exactDivide PosInfinity (Finite b) = (if 0 \<le> b then PosInfinity else NegInfinity)"
| "exactDivide NegInfinity (Finite b) = (if 0 \<le> b then NegInfinity else PosInfinity)"
| "exactDivide x y = NaN"

definition exactArithmetic :: arithmetic where
  "exactArithmetic = \<lparr>addNumbers = exactAdd, divideNumbers = exactDivide\<rparr>"

text \<open>
  Of the state of the progress bar, the fields that \<open>setProgress\<close>, \<open>advance\<close>,
  \<open>start\<close> and \<open>finish\<close> read or write are kept. Rendering is not modelled:
  \<open>display\<close> is recorded as a count of its calls, since it writes neither \<open>step\<close>
  nor \<open>max\<close>.
\<close>

record ProgressBar =
  step :: number
  maxSteps :: number
  redrawFreq :: number
  percent :: number
  shouldOverwrite :: bool
  displayed :: nat

definition display :: "ProgressBar \<Rightarrow> ProgressBar" where
  "display b = b\<lparr>displayed := Suc (displayed b)\<rparr>"

definition setMaxSteps :: "number \<Rightarrow> ProgressBar \<Rightarrow> ProgressBar" where
  "setMaxSteps m b = b\<lparr>maxSteps := mathMax (Finite 0) m\<rparr>"

definition setRedrawFrequency :: "number \<Rightarrow> ProgressBar \<Rightarrow> ProgressBar" where
  "setRedrawFrequency freq b = b\<lparr>redrawFreq := mathMax freq (Finite 1)\<rparr>"

definition setOverwrite :: "bool \<Rightarrow> ProgressBar \<Rightarrow> ProgressBar" where
  "setOverwrite overwrite b = b\<lparr>shouldOverwrite := overwrite\<rparr>"

text \<open>
  The constructor, for an output that is decorated or not, and \<open>max\<close> steps. The field
  initialisers give \<open>step = 0\<close>, \<open>percent = 0\<close>, \<open>redrawFreq = 1\<close> and
  \<open>shouldOverwrite = true\<close>.
\<close>

definition newProgressBar :: "arithmetic \<Rightarrow> bool \<Rightarrow> number \<Rightarrow> ProgressBar" where
  "newProgressBar ar outputDecorated m =
     (let b = setMaxSteps m
                \<lparr>step = Finite 0, maxSteps = Finite 0, redrawFreq = Finite 1, percent = Finite 0,
                 shouldOverwrite = True, displayed = 0\<rparr>
      in if \<not> outputDecorated
         then setRedrawFrequency (divideNumbers ar m (Finite 10)) (b\<lparr>shouldOverwrite := False\<rparr>)
         else b)"

text \<open>
  \<open>setProgress\<close>: \<open>grow\<close> is the test of the first branch, \<open>s1\<close> the variable
  \<open>step\<close> after the two branches.
\<close>

definition setProgress :: "arithmetic \<Rightarrow> number \<Rightarrow> ProgressBar \<Rightarrow> ProgressBar" where
  "setProgress ar s b =
     (let grow = (truthy (maxSteps b) \<and> greaterThan_number s (maxSteps b));
          b1 = (if grow then b\<lparr>maxSteps := s\<rparr> else b);
          s1 = (if grow then s else if lessThan_number s (Finite 0) then Finite 0 else s);
          prevPeriod = mathRound (divideNumbers ar (step b1) (redrawFreq b1));
          currPeriod = mathRound (divideNumbers ar s1 (redrawFreq b1));
          b2 = b1\<lparr>step := s1\<rparr>;
          b3 = b2\<lparr>percent := (if truthy (maxSteps b2)
                                then divideNumbers ar (step b2) (maxSteps b2)
                                else Finite 0)\<rparr>
      in if \<not> strictEquals prevPeriod currPeriod \<or> strictEquals (maxSteps b3) s1
         then display b3 else b3)"

definition advance :: "arithmetic \<Rightarrow> number \<Rightarrow> ProgressBar \<Rightarrow> ProgressBar" where
  "advance ar s b = setProgress ar (addNumbers ar (step b) s) b"

text \<open>\<open>start(max)\<close>; \<open>None\<close> is the default \<open>null\<close>, which leaves \<open>max\<close> as it is.\<close>

definition start :: "number option \<Rightarrow> ProgressBar \<Rightarrow> ProgressBar" where
  "start m b =
     (let b1 = b\<lparr>step := Finite 0, percent := Finite 0\<rparr>;
          b2 = (case m of None \<Rightarrow> b1 | Some m' \<Rightarrow> setMaxSteps m' b1)
      in display b2)"

definition finish :: "arithmetic \<Rightarrow> ProgressBar \<Rightarrow> ProgressBar" where
  "finish ar b =
     (let b1 = (if \<not> truthy (maxSteps b) then b\<lparr>maxSteps := step b\<rparr> else b)
      in if strictEquals (step b1) (maxSteps b1) \<and> \<not> shouldOverwrite b1 then b1
         else setProgress ar (maxSteps b1) b1)"

text \<open>
  A progress bar is built by the constructor and then operated by calls of its methods,
  in any number and order, with any numbers.
\<close>

datatype barCall =
  Start "number option"
| SetProgress number
| Advance number
| Finish
| SetRedrawFrequency number
| SetOverwrite bool

fun call :: "arithmetic \<Rightarrow> ProgressBar \<Rightarrow> barCall \<Rightarrow> ProgressBar" where
  "call ar b (Start m) = start m b"
| "call ar b (SetProgress s) = setProgress ar s b"
| "call ar b (Advance s) = advance ar s b"
| "call ar b Finish = finish ar b"
| "call ar b (SetRedrawFrequency freq) = setRedrawFrequency freq b"
| "call ar b (SetOverwrite w) = setOverwrite w b"

definition progressBar :: "arithmetic \<Rightarrow> bool \<Rightarrow> number \<Rightarrow> barCall list \<Rightarrow> ProgressBar" where
  "progressBar ar outputDecorated m calls =
     foldl (call ar) (newProgressBar ar outputDecorated m) calls"

text \<open>
  The invariant of the state: neither \<open>max\<close> nor the step is negative (each is \<open>NaN\<close>,
  or at least 0).
\<close>

definition notNegative :: "ProgressBar \<Rightarrow> bool" where
  "notNegative b \<longleftrightarrow>
     \<not> lessThan_number (maxSteps b) (Finite 0) \<and> \<not> lessThan_number (step b) (Finite 0)"

section \<open>Table\<close>

text \<open>
  A cell is a string, a \<open>TableCell\<close> or a \<open>TableSeparator\<close> (a subclass of
  \<open>TableCell\<close>); the two classes carry the value, the rowspan and the colspan. An array
  of cells can have holes: \<open>None\<close> is an index that holds \<open>undefined\<close>. A row is an
  array of cells or a \<open>TableSeparator\<close>. The arrays of rows themselves have no hole, as
  \<open>setHeaders\<close>, \<open>setRows\<close> and \<open>addRow\<close> build them, and the same array of cells is
  not used for two rows.
\<close>

datatype cell = Str string | TableCell string nat nat | TableSeparator string nat nat

fun isTableCell :: "cell \<Rightarrow> bool" where
  "isTableCell (Str s) = False"
| "isTableCell (TableCell v r c) = True"
| "isTableCell (TableSeparator v r c) = True"

fun cellString :: "cell \<Rightarrow> string" where
  "cellString (Str s) = s"
| "cellString (TableCell v r c) = v"
| "cellString (TableSeparator v r c) = v"

text \<open>The two getters are called on instances of \<open>TableCell\<close> only.\<close>

fun getRowspan :: "cell \<Rightarrow> nat" where
  "getRowspan (Str s) = 1"
| "getRowspan (TableCell v r c) = r"
| "getRowspan (TableSeparator v r c) = r"

fun getColspan :: "cell \<Rightarrow> nat" where
  "getColspan (Str s) = 1"
| "getColspan (TableCell v r c) = c"
| "getColspan (TableSeparator v r c) = c"

type_synonym tableRow = "cell option list"

datatype rowInput = Cells tableRow | SeparatorRow

subsection \<open>Arrays\<close>

definition arr_get :: "'a option list \<Rightarrow> nat \<Rightarrow> 'a option" where
  "arr_get xs i = (if i < length xs then xs ! i else None)"

text \<open>\<open>xs[i] = v\<close>: past the end, the array grows and the indices between are holes.\<close>

definition arr_set :: "'a option list \<Rightarrow> nat \<Rightarrow> 'a \<Rightarrow> 'a option list" where
  "arr_set xs i v =
     (if i < length xs then xs[i := Some v]
      else xs @ replicate (i - length xs) None @ [Some v])"

text \<open>\<open>xs.splice(i, 0, v)\<close>: past the end, the element is appended.\<close>

definition splice_insert :: "'a list \<Rightarrow> nat \<Rightarrow> 'a \<Rightarrow> 'a list" where
  "splice_insert xs i v = take i xs @ [v] @ drop i xs"

definition row_at :: "rowInput list \<Rightarrow> nat \<Rightarrow> rowInput option" where
  "row_at rs i = (if i < length rs then Some (rs ! i) else None)"

definition indexed :: "'a list \<Rightarrow> (nat \<times> 'a) list" where
  "indexed xs = zip [0..<length xs] xs"

text \<open>\<open>range(from, to)\<close>: ascending when \<open>from < to\<close>, one element when equal, else none.\<close>

definition range_list :: "int \<Rightarrow> int \<Rightarrow> int list" where
  "range_list from to = (if from < to then [from..to] else if from = to then [to] else [])"

text \<open>\<open>str.split('\n')\<close> and \<open>countOccurences(str, '\n')\<close>.\<close>

fun split_nl :: "string \<Rightarrow> string list" where
  "split_nl [] = [[]]"
| "split_nl (c # cs) =
     (if c = nl then [] # split_nl cs
      else case split_nl cs of
             [] \<Rightarrow> [[c]]
           | l # ls \<Rightarrow> (c # l) # ls)"

definition countOccurences_nl :: "string \<Rightarrow> nat" where
  "countOccurences_nl haystack = length (filter (\<lambda>c. c = nl) haystack)"

subsection \<open>Columns\<close>

definition getNumberOfColumns :: "tableRow \<Rightarrow> int" where
  "getNumberOfColumns row =
     int (length (filter (\<lambda>c. c \<noteq> None) row))
     + sum_list (map (\<lambda>c. case c of
                             None \<Rightarrow> 0
                           | Some d \<Rightarrow> if isTableCell d then int (getColspan d) - 1 else 0) row)"

definition calculateNumberOfColumns :: "rowInput list \<Rightarrow> rowInput list \<Rightarrow> int" where
  "calculateNumberOfColumns hs rs =
     foldl max 0
       (concat (map (\<lambda>r. case r of Cells row \<Rightarrow> [getNumberOfColumns row] | SeparatorRow \<Rightarrow> [])
                    (hs @ rs)))"

definition fillCells :: "tableRow \<Rightarrow> tableRow" where
  "fillCells row =
     concat (map (\<lambda>(column, c).
                    case c of
                      None \<Rightarrow> []
                    | Some d \<Rightarrow>
                        Some d #
                        (if isTableCell d \<and> getColspan d > 1
                         then map (\<lambda>position. Some (Str []))
                                (range_list (int column + 1) (int column + int (getColspan d) - 1))
                         else []))
                 (indexed row))"

definition copyRow :: "rowInput list \<Rightarrow> nat \<Rightarrow> error + tableRow" where
  "copyRow rs line =
     (case row_at rs line of
        Some (Cells row) \<Rightarrow>
          Inr (map (map_option (\<lambda>d. if isTableCell d then TableCell [] 1 (getColspan d) else Str []))
                   row)
      | Some SeparatorRow \<Rightarrow> Inl TypeError
      | None \<Rightarrow> Inl TypeError)"

subsection \<open>fillNextRows\<close>

text \<open>
  The local array \<open>unmergedRows\<close> of \<open>fillNextRows\<close> holds references to arrays of
  cells, and \<open>arrayFill\<close> puts one and the same new array at every index it fills. The
  arrays therefore live in a store, a list indexed by address, and \<open>unmergedRows\<close> is
  an array of addresses. An index of it is a hole (never assigned), holds \<open>undefined\<close>
  (assigned so), or holds a reference: \<open>for ... in\<close> passes over the holes only.
\<close>

type_synonym store = "tableRow list"

datatype slot = Hole | Undefined | Ref nat

text \<open>\<open>arrayFill(startIndex, num, value)\<close>, the value being the array at \<open>addr\<close>.\<close>

definition arrayFill :: "nat \<Rightarrow> nat \<Rightarrow> nat \<Rightarrow> slot list" where
  "arrayFill startIndex num addr = replicate startIndex Hole @ replicate num (Ref addr)"

text \<open>
  \<open>arrayReplaceRecursive(arr, old)\<close>, called with the array \<open>arr\<close> that \<open>arrayFill\<close>
  has just built around a new, empty array. The result starts as a copy of \<open>arr\<close>.
  Then, for each index \<open>p\<close> that \<open>old\<close> has, the function reads
  \<open>arguments[i][+p]\<close> with \<open>i = 0\<close>, which is \<open>arr[p]\<close>, its own first argument, and
  not the entry of \<open>old\<close>: where the result has an array, it gets the merge of that
  array with itself, a new empty array; elsewhere it gets \<open>arr[p]\<close>, which is
  \<open>undefined\<close>. What the rows of \<open>old\<close> hold is not read.
\<close>

fun arrayReplaceRecursive :: "slot list \<Rightarrow> slot list \<Rightarrow> store \<Rightarrow> slot list \<times> store" where
  "arrayReplaceRecursive arr [] h = (arr, h)"
| "arrayReplaceRecursive [] (old # olds) h =
     (case arrayReplaceRecursive [] olds h of
        (rest, h') \<Rightarrow> ((if old = Hole then Hole else Undefined) # rest, h'))"
| "arrayReplaceRecursive (new # news) (old # olds) h =
     (if old = Hole then
        (case arrayReplaceRecursive news olds h of (rest, h') \<Rightarrow> (new # rest, h'))
      else case new of
             Ref addr \<Rightarrow>
               (case arrayReplaceRecursive news olds (h @ [[]]) of
                  (rest, h') \<Rightarrow> (Ref (length h) # rest, h'))
           | Hole \<Rightarrow>
               (case arrayReplaceRecursive news olds h of (rest, h') \<Rightarrow> (Undefined # rest, h'))
           | Undefined \<Rightarrow>
               (case arrayReplaceRecursive news olds h of (rest, h') \<Rightarrow> (Undefined # rest, h')))"

text \<open>
  The loop that writes the cell of one spanning cell into the unmerged rows, from key
  \<open>key\<close> on; \<open>entries\<close> are the entries of \<open>unmergedRows\<close> from that key. After
  \<open>delete lines[0]\<close> the first line is a hole of \<open>lines\<close>.
\<close>

fun writeUnmerged ::
  "nat \<Rightarrow> nat \<Rightarrow> nat \<Rightarrow> nat \<Rightarrow> string option list \<Rightarrow> nat \<Rightarrow> slot list \<Rightarrow> store \<Rightarrow> store" where
  "writeUnmerged line nbLines column colspan lines key [] h = h"
| "writeUnmerged line nbLines column colspan lines key (Hole # entries) h =
     writeUnmerged line nbLines column colspan lines (Suc key) entries h"
| "writeUnmerged line nbLines column colspan lines key (Undefined # entries) h =
     writeUnmerged line nbLines column colspan lines (Suc key) entries h"
| "writeUnmerged line nbLines column colspan lines key (Ref addr # entries) h =
     (let value = (if key < line then []
                   else case arr_get lines (key - line) of Some l \<Rightarrow> l | None \<Rightarrow> []);
          h' = h[addr := arr_set (h ! addr) column (TableCell value 1 colspan)]
      in if int nbLines = int key - int line then h'
         else writeUnmerged line nbLines column colspan lines (Suc key) entries h')"

text \<open>The body of the first loop of \<open>fillNextRows\<close>, for one column of row \<open>line\<close>.\<close>

definition fillColumn ::
  "nat \<Rightarrow> tableRow \<times> slot list \<times> store \<Rightarrow> nat \<Rightarrow> tableRow \<times> slot list \<times> store" where
  "fillColumn line state column =
     (case state of
        (row, unmergedRows, h) \<Rightarrow>
          (case arr_get row column of
             None \<Rightarrow> state
           | Some cell \<Rightarrow>
               if isTableCell cell \<and> getRowspan cell > 1 then
                 let cellStr = cellString cell;
                     multi = (nl \<in> set cellStr);
                     split = split_nl cellStr;
                     nbLines = (if multi \<and> length split > getRowspan cell - 1
                                then countOccurences_nl cellStr
                                else getRowspan cell - 1);
                     lines = (if multi then None # map Some (tl split) else [Some cellStr]);
                     row' = (if multi
                             then row[column := Some (TableCell (hd split) 1 (getColspan cell))]
                             else row)
                 in case arrayReplaceRecursive (arrayFill (line + 1) nbLines (length h))
                           unmergedRows (h @ [[]]) of
                      (unmergedRows', h') \<Rightarrow>
                        (row', unmergedRows',
                         writeUnmerged line nbLines column (getColspan cell) lines 0 unmergedRows' h')
               else state))"

text \<open>
  The body of the second loop: the unmerged row of key \<open>key\<close> is merged into the row
  at that key when there is one and the columns fit, and is else laid over a blank copy
  of the row before, which is inserted.
\<close>

definition mergeUnmerged ::
  "int \<Rightarrow> store \<Rightarrow> error + rowInput list \<Rightarrow> nat \<times> slot \<Rightarrow> error + rowInput list" where
  "mergeUnmerged numberOfColumns h acc entry =
     (case acc of
        Inl e \<Rightarrow> Inl e
      | Inr rs \<Rightarrow>
          (case entry of
             (key, Hole) \<Rightarrow> Inr rs
           | (key, Undefined) \<Rightarrow> Inr rs
           | (key, Ref addr) \<Rightarrow>
               let unmergedRow = h ! addr;
                   fits = (case row_at rs key of
                             Some (Cells r) \<Rightarrow>
                               getNumberOfColumns r + getNumberOfColumns unmergedRow
                                 \<le> numberOfColumns
                           | Some SeparatorRow \<Rightarrow> False
                           | None \<Rightarrow> False)
               in if fits then
                    (case row_at rs key of
                       Some (Cells r) \<Rightarrow>
                         Inr (rs[key := Cells
                               (foldl (\<lambda>r' (cellKey, c).
                                         case c of
                                           None \<Rightarrow> r'
                                         | Some d \<Rightarrow> splice_insert r' cellKey (Some d))
                                      r (indexed unmergedRow))])
                     | Some SeparatorRow \<Rightarrow> Inr rs
                     | None \<Rightarrow> Inr rs)
                  else if key = 0 then Inl TypeError
                  else (case copyRow rs (key - 1) of
                          Inl e \<Rightarrow> Inl e
                        | Inr row \<Rightarrow>
                            Inr (splice_insert rs key
                                   (Cells
                                     (foldl (\<lambda>r' (column, c).
                                               case c of
                                                 None \<Rightarrow> r'
                                               | Some d \<Rightarrow>
                                                   if cellString d \<noteq> [] then arr_set r' column d
                                                   else r')
                                            row (indexed unmergedRow)))))))"

definition fillNextRows :: "int \<Rightarrow> rowInput list \<Rightarrow> nat \<Rightarrow> error + rowInput list" where
  "fillNextRows numberOfColumns inputRows line =
     (case row_at inputRows line of
        None \<Rightarrow> Inl TypeError
      | Some SeparatorRow \<Rightarrow> Inr inputRows
      | Some (Cells row) \<Rightarrow>
          (case foldl (fillColumn line) (row, [], []) [0..<length row] of
             (row', unmergedRows, h) \<Rightarrow>
               foldl (mergeUnmerged numberOfColumns h) (Inr (inputRows[line := Cells row']))
                 (indexed unmergedRows)))"

subsection \<open>buildTableRows\<close>

text \<open>
  The local \<open>unmergedRows\<close> of \<open>buildTableRows\<close> is written by value only:
  \<open>unmergedRows[rowKey][lineKey][column] = line\<close>, with the two outer arrays created
  on demand.
\<close>

type_synonym unmerged = "tableRow option list option list"

definition setUnmerged :: "unmerged \<Rightarrow> nat \<Rightarrow> nat \<Rightarrow> nat \<Rightarrow> cell \<Rightarrow> unmerged" where
  "setUnmerged um rowKey lineKey column line =
     (let ofRow = (case arr_get um rowKey of Some a \<Rightarrow> a | None \<Rightarrow> []);
          ofLine = (case arr_get ofRow lineKey of Some b \<Rightarrow> b | None \<Rightarrow> [])
      in arr_set um rowKey (arr_set ofRow lineKey (arr_set ofLine column line)))"

text \<open>
  The loop over the columns of row \<open>rowKey\<close>. A cell whose string includes a line
  break is skipped; any other cell is split at its line breaks.
\<close>

definition splitCell ::
  "nat \<Rightarrow> tableRow \<times> unmerged \<Rightarrow> nat \<Rightarrow> tableRow \<times> unmerged" where
  "splitCell rowKey state column =
     (case state of
        (row, um) \<Rightarrow>
          (case arr_get row column of
             None \<Rightarrow> state
           | Some cell \<Rightarrow>
               let cellStr = cellString cell
               in if nl \<in> set cellStr then state
                  else foldl (\<lambda>(row', um') (lineKey, l).
                                let line = (if isTableCell cell then TableCell l 1 (getColspan cell)
                                            else Str l)
                                in if lineKey = 0 then (row'[column := Some line], um')
                                   else (row', setUnmerged um' rowKey lineKey column line))
                             state (indexed (split_nl cellStr))))"

text \<open>
  The first loop of \<open>buildTableRows\<close>. The array of rows grows while the loop runs, so
  the loop is a partial function: \<open>None\<close> is a run that does not end.
\<close>

partial_function (option) buildTableRows_loop ::
  "int \<Rightarrow> rowInput list \<Rightarrow> nat \<Rightarrow> unmerged \<Rightarrow> (error + rowInput list \<times> unmerged) option" where
  "buildTableRows_loop numberOfColumns rs rowKey um =
     (if rowKey < length rs then
        (case rs ! rowKey of
           SeparatorRow \<Rightarrow> buildTableRows_loop numberOfColumns rs (Suc rowKey) um
         | Cells unfilled \<Rightarrow>
             (case fillNextRows numberOfColumns rs rowKey of
                Inl e \<Rightarrow> Some (Inl e)
              | Inr rs' \<Rightarrow>
                  (case row_at rs' rowKey of
                     None \<Rightarrow> Some (Inl TypeError)
                   | Some SeparatorRow \<Rightarrow>
                       buildTableRows_loop numberOfColumns rs' (Suc rowKey) um
                   | Some (Cells row) \<Rightarrow>
                       (case foldl (splitCell rowKey) (row, um) [0..<length row] of
                          (row', um') \<Rightarrow>
                            buildTableRows_loop numberOfColumns (rs'[rowKey := Cells row'])
                              (Suc rowKey) um'))))
      else Some (Inr (rs, um)))"

declare buildTableRows_loop.simps [code]

text \<open>
  The second loop: a separator is passed over, a row of cells is pushed with its
  colspans filled, followed by the rows that were split off it. The result can have
  holes, since \<open>concat\<close> keeps those of its argument.
\<close>

definition collectTableRows :: "rowInput list \<Rightarrow> unmerged \<Rightarrow> rowInput option list" where
  "collectTableRows rs um =
     concat (map (\<lambda>(rowKey, r).
                    case r of
                      SeparatorRow \<Rightarrow> []
                    | Cells row \<Rightarrow>
                        Some (Cells (fillCells row)) #
                        (case arr_get um rowKey of
                           None \<Rightarrow> []
                         | Some extra \<Rightarrow> map (map_option Cells) extra))
                 (indexed rs))"

definition buildTableRows :: "int \<Rightarrow> rowInput list \<Rightarrow> (error + rowInput option list) option" where
  "buildTableRows numberOfColumns rs =
     (case buildTableRows_loop numberOfColumns rs 0 [] of
        None \<Rightarrow> None
      | Some (Inl e) \<Rightarrow> Some (Inl e)
      | Some (Inr (rs', um)) \<Rightarrow> Some (Inr (collectTableRows rs' um)))"

subsection \<open>render\<close>

text \<open>
  Of the style, the border characters that gate \<open>renderRowSeparator\<close> and the two cell
  formats are kept. What \<open>render\<close> writes is recorded line by line as the call that
  writes it: a horizontal rule, or a row of cells with its cell format. The widths of
  the columns and the text of the lines are not modelled.
\<close>

record TableStyle =
  horizontalBorderChar :: string
  crossingChar :: string
  cellHeaderFormat :: string
  cellRowFormat :: string

record Table =
  headers :: "rowInput list"
  rows :: "rowInput list"
  style :: TableStyle

datatype written = RowSeparator | Row tableRow string

definition renderRowSeparator :: "int \<Rightarrow> TableStyle \<Rightarrow> written list" where
  "renderRowSeparator numberOfColumns st =
     (if numberOfColumns = 0 then []
      else if horizontalBorderChar st = [] \<and> crossingChar st = [] then []
      else [RowSeparator])"

definition renderRow :: "tableRow \<Rightarrow> string \<Rightarrow> written list" where
  "renderRow row cellFormat = (if row = [] then [] else [Row row cellFormat])"

text \<open>
  The header loop and the row loop of \<open>render\<close>. A hole among the rows makes \<open>renderRow\<close> raise, and the
  lines written so far stay written; a \<open>TableSeparator\<close> has no \<open>length\<close>, so as a
  header it writes no row.
\<close>

fun renderHeaders :: "int \<Rightarrow> TableStyle \<Rightarrow> rowInput option list \<Rightarrow> written list \<times> error option" where
  "renderHeaders n st [] = ([], None)"
| "renderHeaders n st (None # hs) = ([], Some TypeError)"
| "renderHeaders n st (Some SeparatorRow # hs) =
     (case renderHeaders n st hs of
        (ls, e) \<Rightarrow> (renderRowSeparator n st @ ls, e))"
| "renderHeaders n st (Some (Cells header) # hs) =
     (case renderHeaders n st hs of
        (ls, e) \<Rightarrow> (renderRow header (cellHeaderFormat st) @ renderRowSeparator n st @ ls, e))"

fun renderBody :: "int \<Rightarrow> TableStyle \<Rightarrow> rowInput option list \<Rightarrow> written list \<times> error option" where
  "renderBody n st [] = ([], None)"
| "renderBody n st (None # rs) = ([], Some TypeError)"
| "renderBody n st (Some SeparatorRow # rs) =
     (case renderBody n st rs of
        (ls, e) \<Rightarrow> (renderRowSeparator n st @ ls, e))"
| "renderBody n st (Some (Cells row) # rs) =
     (case renderBody n st rs of
        (ls, e) \<Rightarrow> (renderRow row (cellRowFormat st) @ ls, e))"

text \<open>
  \<open>render\<close>: the lines written, and the error if one was raised. \<open>None\<close> is a run
  of \<open>buildTableRows\<close> that does not end.
\<close>

definition render :: "Table \<Rightarrow> (written list \<times> error option) option" where
  "render t =
     (let n = calculateNumberOfColumns (headers t) (rows t)
      in case buildTableRows n (rows t) of
           None \<Rightarrow> None
         | Some (Inl e) \<Rightarrow> Some ([], Some e)
         | Some (Inr tableRows) \<Rightarrow>
             (case buildTableRows n (headers t) of
                None \<Rightarrow> None
              | Some (Inl e) \<Rightarrow> Some ([], Some e)
              | Some (Inr tableHeaders) \<Rightarrow>
                  (case renderHeaders n (style t) tableHeaders of
                     (hl, Some e) \<Rightarrow> Some (renderRowSeparator n (style t) @ hl, Some e)
                   | (hl, None) \<Rightarrow>
                       (case renderBody n (style t) tableRows of
                          (bl, Some e) \<Rightarrow>
                            Some (renderRowSeparator n (style t) @ hl @ bl, Some e)
                        | (bl, None) \<Rightarrow>
                            Some (renderRowSeparator n (style t) @ hl @ bl
                                  @ (if tableRows \<noteq> [] then renderRowSeparator n (style t)
                                     else []),
                                  None)))))"
section \<open>Properties of the style stack and of the style registry\<close>

lemma pop_search_none:
  "(\<forall>i<n. apply_style st [] \<noteq> apply_style (stackStyles s ! i) []) \<Longrightarrow>
     pop_search st s n = (Inl SyntaxError, s)"
  by (induction n) (simp_all add: Let_def)

lemma pop_search_found:
  assumes "i < n"
    and "apply_style st [] = apply_style (stackStyles s ! i) []"
    and "\<forall>j. i < j \<and> j < n \<longrightarrow> apply_style st [] \<noteq> apply_style (stackStyles s ! j) []"
  shows "pop_search st s n = (Inr (stackStyles s ! i), s\<lparr>stackStyles := take i (stackStyles s)\<rparr>)"
  using assms
proof (induction n)
  case 0
  then show ?case by simp
next
  case (Suc n)
  show ?case
  proof (cases "i = n")
    case True
    with Suc.prems show ?thesis by (simp add: Let_def)
  next
    case False
    with Suc.prems have "i < n" by simp
    moreover from Suc.prems False
    have "apply_style st [] \<noteq> apply_style (stackStyles s ! n) []" by auto
    moreover from Suc.prems
    have "\<forall>j. i < j \<and> j < n \<longrightarrow> apply_style st [] \<noteq> apply_style (stackStyles s ! j) []"
      by auto
    ultimately show ?thesis using Suc.IH Suc.prems(2) by (simp add: Let_def)
  qed
qed

text \<open>
  Claim C5, as amended. On a stack that is not empty: \<open>pop\<close> without a style removes
  and returns the top entry; \<open>pop\<close> with a style returns the topmost entry whose
  rendering of the empty string equals that of the given style, and removes it with
  everything above it; when no entry matches, it fails with the nesting error and the
  stack is as before.
\<close>

theorem pop_nonempty_stack:
  assumes "stackStyles s \<noteq> []"
  shows "pop None s = (Inr (last (stackStyles s)), s\<lparr>stackStyles := butlast (stackStyles s)\<rparr>)
    \<and> (\<forall>i<length (stackStyles s).
          apply_style st [] = apply_style (stackStyles s ! i) [] \<and>
          (\<forall>j. i < j \<and> j < length (stackStyles s) \<longrightarrow>
                 apply_style st [] \<noteq> apply_style (stackStyles s ! j) []) \<longrightarrow>
          pop (Some st) s = (Inr (stackStyles s ! i), s\<lparr>stackStyles := take i (stackStyles s)\<rparr>))
    \<and> ((\<forall>i<length (stackStyles s). apply_style st [] \<noteq> apply_style (stackStyles s ! i) []) \<longrightarrow>
          pop (Some st) s = (Inl SyntaxError, s))"
  using assms by (auto simp: pop_def pop_search_none pop_search_found)

text \<open>
  The three cases on the stack \<open>info, error, comment\<close>: the top is \<open>comment\<close>; closing
  \<open>info\<close> removes all three entries; closing \<open>question\<close> finds no match.
\<close>

theorem pop_nonempty_stack_witness:
  "pop None \<lparr>stackStyles = [styleOf (Some ''green'') None, styleOf (Some ''white'') (Some ''red''),
                              styleOf (Some ''yellow'') None], emptyStyle = newStyle\<rparr>
     = (Inr (styleOf (Some ''yellow'') None),
        \<lparr>stackStyles = [styleOf (Some ''green'') None, styleOf (Some ''white'') (Some ''red'')],
         emptyStyle = newStyle\<rparr>)
   \<and> pop (Some (styleOf (Some ''green'') None))
        \<lparr>stackStyles = [styleOf (Some ''green'') None, styleOf (Some ''white'') (Some ''red''),
                        styleOf (Some ''yellow'') None], emptyStyle = newStyle\<rparr>
     = (Inr (styleOf (Some ''green'') None), \<lparr>stackStyles = [], emptyStyle = newStyle\<rparr>)
   \<and> pop (Some (styleOf (Some ''black'') (Some ''cyan'')))
        \<lparr>stackStyles = [styleOf (Some ''green'') None, styleOf (Some ''white'') (Some ''red''),
                        styleOf (Some ''yellow'') None], emptyStyle = newStyle\<rparr>
     = (Inl SyntaxError,
        \<lparr>stackStyles = [styleOf (Some ''green'') None, styleOf (Some ''white'') (Some ''red''),
                        styleOf (Some ''yellow'') None], emptyStyle = newStyle\<rparr>)"
proof -
  define I where "I = styleOf (Some ''green'') None"
  define E where "E = styleOf (Some ''white'') (Some ''red'')"
  define C where "C = styleOf (Some ''yellow'') None"
  define Q where "Q = styleOf (Some ''black'') (Some ''cyan'')"
  define S where "S = \<lparr>stackStyles = [I, E, C], emptyStyle = newStyle\<rparr>"
  have st: "stackStyles S = [I, E, C]" by (simp add: S_def)
  then have ne: "stackStyles S \<noteq> []" by simp
  have d1: "apply_style I [] \<noteq> apply_style E []" unfolding I_def E_def by code_simp
  have d2: "apply_style I [] \<noteq> apply_style C []" unfolding I_def C_def by code_simp
  have q0: "apply_style Q [] \<noteq> apply_style I []" unfolding I_def Q_def by code_simp
  have q1: "apply_style Q [] \<noteq> apply_style E []" unfolding E_def Q_def by code_simp
  have q2: "apply_style Q [] \<noteq> apply_style C []" unfolding C_def Q_def by code_simp
  have above: "\<forall>j. 0 < j \<and> j < length (stackStyles S) \<longrightarrow>
      apply_style I [] \<noteq> apply_style (stackStyles S ! j) []"
    using d1 d2 by (auto simp: st less_Suc_eq numeral_3_eq_3)
  have none: "\<forall>i<length (stackStyles S). apply_style Q [] \<noteq> apply_style (stackStyles S ! i) []"
    using q0 q1 q2 by (auto simp: st less_Suc_eq numeral_3_eq_3)
  have found: "apply_style I [] = apply_style (stackStyles S ! 0) []"
    by (simp add: st)
  note top = pop_nonempty_stack [OF ne, of I, THEN conjunct1]
  have pos: "0 < length (stackStyles S)" by (simp add: st)
  have b0: "pop (Some I) S
      = (Inr (stackStyles S ! 0), S\<lparr>stackStyles := take 0 (stackStyles S)\<rparr>)"
    using pop_nonempty_stack [OF ne, of I] pos found above by blast
  note noMatch = pop_nonempty_stack [OF ne, of Q, THEN conjunct2, THEN conjunct2, rule_format]
  have a: "pop None S = (Inr C, \<lparr>stackStyles = [I, E], emptyStyle = newStyle\<rparr>)"
    using top by (simp add: st) (simp add: S_def)
  have b: "pop (Some I) S = (Inr I, \<lparr>stackStyles = [], emptyStyle = newStyle\<rparr>)"
    unfolding b0 by (simp add: st) (simp add: S_def)
  have c: "pop (Some Q) S = (Inl SyntaxError, S)"
    using noMatch none by blast
  from a b c show ?thesis
    unfolding S_def I_def E_def C_def Q_def by simp
qed

text \<open>
  Claim C5 as it is stated fails on the empty stack: \<open>pop\<close> with a style finds no
  matching entry there, and returns the empty style instead of the nesting error.
\<close>

theorem pop_by_style_counterexample:
  "fst (pop (Some (styleOf (Some ''green'') None)) \<lparr>stackStyles = [], emptyStyle = newStyle\<rparr>)
     = Inr newStyle"
  by (simp add: pop_def)

text \<open>
  Claim C9. On an empty stack \<open>pop\<close> raises nothing, whatever its argument: it returns
  the registered empty style and the stack stays empty.
\<close>

theorem pop_empty_stack:
  "stackStyles s = [] \<Longrightarrow> pop arg s = (Inr (emptyStyle s), s)"
  by (simp add: pop_def)

theorem pop_empty_stack_witness:
  "stackStyles newStack = [] \<and>
   pop (Some (styleOf (Some ''green'') None)) newStack = (Inr newStyle, newStack) \<and>
   pop None newStack = (Inr newStyle, newStack)"
proof -
  have h: "stackStyles newStack = []" by (simp add: newStack_def)
  have e: "emptyStyle newStack = newStyle" by (simp add: newStack_def)
  from h e pop_empty_stack [OF h, of "Some (styleOf (Some ''green'') None)"]
    pop_empty_stack [OF h, of None]
  show ?thesis by simp
qed

lemma lookupStyle_setStyle:
  "lookupStyle (setStyle name sty f) (toLowerCase name) = Some (Style sty)"
  by (simp add: setStyle_def lookupStyle_def Let_def)

text \<open>
  Claim C10, as amended. Style names are keyed on their lower-cased form: after
  \<open>setStyle name style\<close>, every name with the same lower-cased form as \<open>name\<close> has
  the style and gets it back, whatever the registry held before and also when the key is
  one that the registry inherits; and \<open>getStyle\<close> raises the reference error exactly
  when \<open>hasStyle\<close> is false, and returns what the registry holds otherwise.
\<close>

theorem style_names_case_insensitive:
  "(toLowerCase name' = toLowerCase name \<longrightarrow>
      hasStyle (setStyle name sty f) name'
      \<and> getStyle (setStyle name sty f) name' = Inr (Style sty))
   \<and> (getStyle g n = Inl ReferenceError \<longleftrightarrow> \<not> hasStyle g n)
   \<and> (hasStyle g n \<longrightarrow> (\<exists>v. getStyle g n = Inr v))"
proof -
  have same: "hasStyle (setStyle name sty f) v \<and> getStyle (setStyle name sty f) v = Inr (Style sty)"
    if "toLowerCase v = toLowerCase name" for v
    using that lookupStyle_setStyle [of name sty f] by (simp add: hasStyle_def getStyle_def)
  have thrown: "getStyle g n = Inl ReferenceError \<longleftrightarrow> \<not> hasStyle g n"
    by (simp add: hasStyle_def getStyle_def split: option.splits)
  have found: "hasStyle g n \<longrightarrow> (\<exists>v. getStyle g n = Inr v)"
    by (auto simp: hasStyle_def getStyle_def)
  from same [of name'] thrown found show ?thesis by blast
qed

text \<open>
  A style registered under \<open>cole\<close> with a capital E acute (code unit \<open>0xC9\<close>) in
  front is found under \<open>COLE\<close> with the small e acute (\<open>0xE9\<close>) in front.
  A name that was never registered is not found, and \<open>getStyle\<close> raises; \<open>ERROR\<close> is
  found, and so is \<open>constructor\<close>, which the registry inherits. A style set under
  \<open>__PROTO__\<close> becomes the prototype of the registry, and is what \<open>__proto__\<close> gets.
\<close>

theorem style_names_case_insensitive_witness:
  "toLowerCase (CHR 0xE9 # ''COLE'') = toLowerCase (CHR 0xC9 # ''cole'')
   \<and> hasStyle (setStyle (CHR 0xC9 # ''cole'') (styleOf (Some ''green'') None) (newFormatter False))
        (CHR 0xE9 # ''COLE'')
   \<and> getStyle (setStyle (CHR 0xC9 # ''cole'') (styleOf (Some ''green'') None) (newFormatter False))
        (CHR 0xE9 # ''COLE'')
       = Inr (Style (styleOf (Some ''green'') None))
   \<and> \<not> hasStyle (newFormatter False) ''Bogus''
   \<and> getStyle (newFormatter False) ''Bogus'' = Inl ReferenceError
   \<and> hasStyle (newFormatter False) ''ERROR''
   \<and> (\<exists>v. getStyle (newFormatter False) ''ERROR'' = Inr v)
   \<and> hasStyle (newFormatter False) ''constructor''
   \<and> (\<exists>v. getStyle (newFormatter False) ''constructor'' = Inr v)
   \<and> getStyle (setStyle ''__PROTO__'' (styleOf (Some ''green'') None) (newFormatter False))
        ''__proto__''
       = Inr (Style (styleOf (Some ''green'') None))"
proof -
  have low2: "toLowerCase ''__proto__'' = toLowerCase ''__PROTO__''"
    by code_simp
  have low: "toLowerCase (CHR 0xE9 # ''COLE'') = toLowerCase (CHR 0xC9 # ''cole'')"
    by code_simp
  have no: "\<not> hasStyle (newFormatter False) ''Bogus''"
    by code_simp
  have yes: "hasStyle (newFormatter False) ''ERROR''"
    by code_simp
  have inh: "hasStyle (newFormatter False) ''constructor''"
    by code_simp
  from low no yes inh
    style_names_case_insensitive [of "CHR 0xE9 # ''COLE''" "CHR 0xC9 # ''cole''"
      "styleOf (Some ''green'') None" "newFormatter False" "newFormatter False" "''Bogus''"]
    style_names_case_insensitive [of "CHR 0xE9 # ''COLE''" "CHR 0xC9 # ''cole''"
      "styleOf (Some ''green'') None" "newFormatter False" "newFormatter False" "''ERROR''"]
    style_names_case_insensitive [of "CHR 0xE9 # ''COLE''" "CHR 0xC9 # ''cole''"
      "styleOf (Some ''green'') None" "newFormatter False" "newFormatter False" "''constructor''"]
    style_names_case_insensitive [of "''__proto__''" "''__PROTO__''"
      "styleOf (Some ''green'') None" "newFormatter False" "newFormatter False" "''Bogus''"]
    low2
  show ?thesis by blast
qed

text \<open>
  Claim C10 as it is stated fails on a name whose upper-cased form does not lower-case
  back to it. The sharp s (code unit \<open>0xDF\<close>) is its own lower-cased form, and
  \<open>toUpperCase\<close> turns it into \<open>SS\<close>; the lookup of \<open>SS\<close> goes to the key \<open>ss\<close>,
  where the style is not.
\<close>

theorem style_names_uppercase_counterexample:
  "toLowerCase [CHR 0xDF] = [CHR 0xDF]
   \<and> toLowerCase ''SS'' = ''ss''
   \<and> \<not> hasStyle (setStyle [CHR 0xDF] (styleOf (Some ''green'') None) (newFormatter False)) ''SS''
   \<and> getStyle (setStyle [CHR 0xDF] (styleOf (Some ''green'') None) (newFormatter False)) ''SS''
       = Inl ReferenceError"
  by code_simp
section \<open>Properties of the formatter\<close>








lemma replaceAll_absent:
  "\<not> str_includes s needle \<Longrightarrow> replaceAll needle replacement s = s"
  by (induction s) auto

lemma removeAnsi_absent:
  "\<not> str_includes s [esc, CHR ''[''] \<Longrightarrow> removeAnsi s = s"
proof (induction s)
  case Nil
  then show ?case by simp
next
  case (Cons c cs)
  then show ?case by (cases cs) auto
qed

lemma format_loop_no_tag:
  "tagsRegex_exec message lastIndex = None \<Longrightarrow>
     format_loop f message offset lastIndex out = (Inr (offset, out), f)"
  by (subst format_loop.simps) (simp add: format_step_def)

text \<open>
  Claim C4, as amended. A text in which the tag pattern matches nowhere, and which holds
  neither a backslash followed by \<open><\<close> nor two \<open><\<close> in a row, is returned unchanged
  by \<open>format\<close> when decoration is off; if it also holds no escape character followed
  by an opening bracket, its length without decoration is its length, and the formatter
  is left as it was.
\<close>

theorem format_plain_text:
  assumes "tagsRegex_exec T 0 = None"
    and "\<not> str_includes T [bs, lt]"
    and "\<not> str_includes T [lt, lt]"
  shows "format (setDecorated False f) T = (Inr T, setDecorated False f)
    \<and> (\<not> str_includes T [esc, CHR ''[''] \<longrightarrow>
          lengthWithoutDecoration f T = (Inr (length T), f))"
proof -
  have plain: "format (f\<lparr>decorated := False\<rparr>) T = (Inr T, f\<lparr>decorated := False\<rparr>)"
    using assms
    by (simp add: format_def format_scan_def unescape_def format_loop_no_tag
          applyCurrentStyle_def isDecorated_def replaceAll_absent)
  then show ?thesis
    by (simp add: setDecorated_def lengthWithoutDecoration_def removeDecoration_def
          isDecorated_def removeAnsi_absent)
qed

theorem format_plain_text_witness:
  "tagsRegex_exec ''1 < 2 > 0'' 0 = None
   \<and> format (setDecorated False (newFormatter True)) ''1 < 2 > 0''
       = (Inr ''1 < 2 > 0'', setDecorated False (newFormatter True))
   \<and> lengthWithoutDecoration (newFormatter True) ''1 < 2 > 0'' = (Inr 9, newFormatter True)"
proof -
  have h1: "tagsRegex_exec ''1 < 2 > 0'' 0 = None" by code_simp
  have h2: "\<not> str_includes ''1 < 2 > 0'' [bs, lt]" by code_simp
  have h3: "\<not> str_includes ''1 < 2 > 0'' [lt, lt]" by code_simp
  have h4: "\<not> str_includes ''1 < 2 > 0'' [esc, CHR ''['']" by code_simp
  from format_plain_text [OF h1 h2 h3, of "newFormatter True"] h1 h4
  show ?thesis by simp
qed

text \<open>
  Claim C4 as it is stated fails on the text made of two \<open><\<close>: it holds no tag, yet
  \<open>format\<close> turns the pair into one backslash, and its visible length is 1, not 2.
\<close>

theorem format_plain_counterexample:
  "tagsRegex_exec [lt, lt] 0 = None
   \<and> fst (format (newFormatter False) [lt, lt]) = Inr [bs]
   \<and> fst (lengthWithoutDecoration (newFormatter False) [lt, lt]) = Inr 1"
  by code_simp

text \<open>
  Claim C6 at its failing inputs. The text \<open><\<close> followed by a backslash comes back
  from escape-then-format as two backslashes and \<open><\<close>: the trailing backslash is
  lost. A backslash followed by two \<open><\<close> comes back as the two \<open><\<close> alone.
\<close>

theorem escape_format_failing_input:
  "fst (format (newFormatter False) (escape [lt, bs])) = Inr [bs, bs, lt]
   \<and> fst (format (newFormatter False) (escape [bs, lt, lt])) = Inr [lt, lt]"
  by code_simp


subsection \<open>A tag that resolves to no style\<close>

















text \<open>
  Scanning the rest of a message behind a tag is scanning that rest on its own, and
  what is already in the output stays in front.
\<close>

lemma map_option_shift:
  "map_option (\<lambda>(i, m). (Suc i, m)) (map_option (\<lambda>(i, m). (n + i, m)) x)
     = map_option (\<lambda>(i, m). (Suc n + i, m)) x"
  by (cases x) auto











text \<open>
  A specification without \<open>=\<close> has no clause, and one whose first clause is \<open>fg\<close> or
  \<open>bg\<close> with a colour that the table does not hold raises the reference error.
\<close>

lemma styleRegex_exec_no_equals: "CHR ''='' \<notin> set s \<Longrightarrow> styleRegex_exec s = None"
proof (induction s)
  case Nil
  show ?case by simp
next
  case (Cons c cs)
  then have "dropWhile (\<lambda>c. c \<noteq> CHR ''='') (c # cs) = []" by auto
  then have "styleRegex_at (c # cs) = None" by (simp add: styleRegex_at_def Let_def)
  with Cons show ?case by simp
qed

lemma createStyleFromString_no_clause:
  "lookupStyle f str = None \<Longrightarrow> CHR ''='' \<notin> set str \<Longrightarrow>
     createStyleFromString f str = Inr None"
  by (simp add: createStyleFromString_def createStyle_loop.simps styleRegex_exec_no_equals)









section \<open>Properties of the progress bar\<close>

text \<open>The constructor and every method keep \<open>max\<close> and the step from being negative.\<close>

lemma setProgress_fields:
  "maxSteps (setProgress ar s b)
     = (if truthy (maxSteps b) \<and> greaterThan_number s (maxSteps b) then s else maxSteps b)"
  "step (setProgress ar s b)
     = (if truthy (maxSteps b) \<and> greaterThan_number s (maxSteps b) then s
        else if lessThan_number s (Finite 0) then Finite 0 else s)"
  by (auto simp: setProgress_def Let_def display_def)

lemma setProgress_notNegative:
  assumes "notNegative b"
  shows "notNegative (setProgress ar s b)"
proof -
  have "\<not> lessThan_number s (Finite 0)"
    if "greaterThan_number s (maxSteps b)"
    using that assms
    by (cases s; cases "maxSteps b") (auto simp: notNegative_def greaterThan_number_def)
  with assms show ?thesis
    by (auto simp: notNegative_def setProgress_fields)
qed

lemma newProgressBar_notNegative: "notNegative (newProgressBar ar outputDecorated m)"
  by (cases m)
     (auto simp: notNegative_def newProgressBar_def setMaxSteps_def setRedrawFrequency_def
        Let_def mathMax_def)

lemma call_notNegative:
  assumes "notNegative b"
  shows "notNegative (call ar b c)"
proof (cases c)
  case (Start m)
  show ?thesis
  proof (cases m)
    case None
    with Start assms show ?thesis
      by (simp add: notNegative_def start_def display_def Let_def)
  next
    case (Some m')
    with Start assms show ?thesis
      by (cases m')
         (auto simp: notNegative_def start_def display_def setMaxSteps_def Let_def mathMax_def)
  qed
next
  case (SetProgress s)
  with setProgress_notNegative [OF assms] show ?thesis by simp
next
  case (Advance s)
  with setProgress_notNegative [OF assms] show ?thesis by (simp add: advance_def)
next
  case Finish
  let ?b1 = "if \<not> truthy (maxSteps b) then b\<lparr>maxSteps := step b\<rparr> else b"
  from assms have "notNegative ?b1" by (simp add: notNegative_def)
  from this setProgress_notNegative [OF this, of ar "maxSteps ?b1"] Finish show ?thesis
    by (simp add: finish_def Let_def)
next
  case (SetRedrawFrequency freq)
  with assms show ?thesis by (simp add: notNegative_def setRedrawFrequency_def)
next
  case (SetOverwrite w)
  with assms show ?thesis by (simp add: notNegative_def setOverwrite_def)
qed

lemma calls_notNegative: "notNegative b \<Longrightarrow> notNegative (foldl (call ar) b calls)"
  by (induction calls arbitrary: b) (simp_all add: call_notNegative)

lemma progressBar_notNegative: "notNegative (progressBar ar outputDecorated m calls)"
  unfolding progressBar_def by (rule calls_notNegative) (rule newProgressBar_notNegative)

text \<open>After \<open>setProgress\<close> with a step that is a number, the step is in range.\<close>

lemma setProgress_step_in_range:
  assumes "\<not> lessThan_number (maxSteps b) (Finite 0)" and "s \<noteq> NaN"
  shows "lessEq_number (Finite 0) (step (setProgress ar s b))"
    and "truthy (maxSteps (setProgress ar s b)) \<Longrightarrow>
      lessEq_number (step (setProgress ar s b)) (maxSteps (setProgress ar s b))"
  using assms
  by (cases s; cases "maxSteps b";
      auto simp: setProgress_fields lessEq_number_def strictEquals_def greaterThan_number_def
        truthy_def)+

text \<open>
  Claim C8, as amended. For every progress bar, built and operated with any numbers, and
  every \<open>setProgress(s)\<close>: when \<open>max\<close> is known and \<open>s\<close> exceeds it, \<open>max\<close> is
  raised to \<open>s\<close> and the step is \<open>s\<close>; a negative \<open>s\<close> gives step 0; and when
  \<open>s\<close> is not \<open>NaN\<close>, the step afterwards is at least 0 and, when \<open>max\<close> is known,
  at most \<open>max\<close>. The same bounds hold after \<open>advance(a)\<close> when the sum of the step
  and \<open>a\<close> is not \<open>NaN\<close>. Here \<open>max\<close> is known when it is truthy: neither 0 nor
  \<open>NaN\<close>.
\<close>

theorem setProgress_keeps_step_in_range:
  "(truthy (maxSteps (progressBar ar d m calls))
      \<and> greaterThan_number s (maxSteps (progressBar ar d m calls)) \<longrightarrow>
        maxSteps (setProgress ar s (progressBar ar d m calls)) = s
        \<and> step (setProgress ar s (progressBar ar d m calls)) = s)
   \<and> (lessThan_number s (Finite 0) \<longrightarrow>
        step (setProgress ar s (progressBar ar d m calls)) = Finite 0)
   \<and> (s \<noteq> NaN \<longrightarrow>
        lessEq_number (Finite 0) (step (setProgress ar s (progressBar ar d m calls)))
        \<and> (truthy (maxSteps (setProgress ar s (progressBar ar d m calls))) \<longrightarrow>
             lessEq_number (step (setProgress ar s (progressBar ar d m calls)))
               (maxSteps (setProgress ar s (progressBar ar d m calls)))))
   \<and> (addNumbers ar (step (progressBar ar d m calls)) a \<noteq> NaN \<longrightarrow>
        lessEq_number (Finite 0) (step (advance ar a (progressBar ar d m calls)))
        \<and> (truthy (maxSteps (advance ar a (progressBar ar d m calls))) \<longrightarrow>
             lessEq_number (step (advance ar a (progressBar ar d m calls)))
               (maxSteps (advance ar a (progressBar ar d m calls)))))"
proof -
  let ?b = "progressBar ar d m calls"
  from progressBar_notNegative [of ar d m calls]
  have mx: "\<not> lessThan_number (maxSteps ?b) (Finite 0)"
    by (simp add: notNegative_def)
  have grow: "truthy (maxSteps ?b) \<and> greaterThan_number s (maxSteps ?b) \<longrightarrow>
      maxSteps (setProgress ar s ?b) = s \<and> step (setProgress ar s ?b) = s"
    by (simp add: setProgress_fields)
  have neg: "lessThan_number s (Finite 0) \<longrightarrow> step (setProgress ar s ?b) = Finite 0"
    using mx
    by (cases s; cases "maxSteps ?b") (auto simp: setProgress_fields greaterThan_number_def)
  from grow neg setProgress_step_in_range [OF mx, of s ar]
    setProgress_step_in_range [OF mx, of "addNumbers ar (step ?b) a" ar]
  show ?thesis
    unfolding advance_def by blast
qed

text \<open>
  A bar of 10 steps, advanced by 4: setting 15 raises \<open>max\<close> to 15, setting \<open>-3\<close>
  gives step 0, advancing by 5 more stays within \<open>max\<close>.
\<close>

theorem setProgress_keeps_step_in_range_witness:
  "maxSteps (progressBar exactArithmetic True (Finite 10) [Start None, Advance (Finite 4)])
     = Finite 10
   \<and> step (progressBar exactArithmetic True (Finite 10) [Start None, Advance (Finite 4)])
     = Finite 4
   \<and> maxSteps (setProgress exactArithmetic (Finite 15)
        (progressBar exactArithmetic True (Finite 10) [Start None, Advance (Finite 4)]))
     = Finite 15
   \<and> step (setProgress exactArithmetic (Finite 15)
        (progressBar exactArithmetic True (Finite 10) [Start None, Advance (Finite 4)]))
     = Finite 15
   \<and> step (setProgress exactArithmetic (Finite (- 3))
        (progressBar exactArithmetic True (Finite 10) [Start None, Advance (Finite 4)]))
     = Finite 0
   \<and> addNumbers exactArithmetic
        (step (progressBar exactArithmetic True (Finite 10) [Start None, Advance (Finite 4)]))
        (Finite 5) = Finite 9
   \<and> lessEq_number
        (step (advance exactArithmetic (Finite 5)
           (progressBar exactArithmetic True (Finite 10) [Start None, Advance (Finite 4)])))
        (maxSteps (advance exactArithmetic (Finite 5)
           (progressBar exactArithmetic True (Finite 10) [Start None, Advance (Finite 4)])))"
proof -
  define b where "b = progressBar exactArithmetic True (Finite 10) [Start None, Advance (Finite 4)]"
  have mx: "maxSteps b = Finite 10" and st: "step b = Finite 4"
    by (simp_all add: b_def progressBar_def newProgressBar_def setMaxSteps_def start_def
          display_def advance_def setProgress_fields Let_def mathMax_def truthy_def
          greaterThan_number_def exactArithmetic_def)
  have known: "truthy (maxSteps b)" by (simp add: mx truthy_def)
  have sum: "addNumbers exactArithmetic (step b) (Finite 5) = Finite 9"
    by (simp add: st exactArithmetic_def)
  have a: "truthy (maxSteps (advance exactArithmetic (Finite 5) b))"
    by (simp add: advance_def setProgress_fields mx sum truthy_def greaterThan_number_def)
  from setProgress_keeps_step_in_range [of exactArithmetic True "Finite 10"
      "[Start None, Advance (Finite 4)]" "Finite 15" "Finite 5"]
    setProgress_keeps_step_in_range [of exactArithmetic True "Finite 10"
      "[Start None, Advance (Finite 4)]" "Finite (- 3)" "Finite 5"]
    mx st known sum a
  show ?thesis
    unfolding b_def [symmetric] by (simp add: greaterThan_number_def)
qed

text \<open>
  Claim C8 as it is stated fails on \<open>setProgress(NaN)\<close>: both tests are false, the
  step becomes \<open>NaN\<close>, and \<open>0 <= step\<close> is false afterwards.
\<close>

theorem setProgress_NaN_counterexample:
  "step (setProgress exactArithmetic NaN (progressBar exactArithmetic True (Finite 10) [])) = NaN
   \<and> \<not> lessEq_number (Finite 0)
        (step (setProgress exactArithmetic NaN (progressBar exactArithmetic True (Finite 10) [])))"
  by (simp add: setProgress_fields greaterThan_number_def lessEq_number_def strictEquals_def)
section \<open>Properties of the table\<close>

text \<open>
  The loop over the columns splits only cells without a line break, which have one
  line: it never writes to \<open>unmergedRows\<close>, so no row is ever split off a cell.
\<close>

lemma split_nl_single: "nl \<notin> set s \<Longrightarrow> split_nl s = [s]"
  by (induction s) auto

lemma splitCell_unmerged: "snd (splitCell rowKey (row, um) column) = um"
proof (cases "arr_get row column")
  case None
  then show ?thesis by (simp add: splitCell_def)
next
  case (Some cell)
  show ?thesis
  proof (cases "nl \<in> set (cellString cell)")
    case True
    with Some show ?thesis by (simp add: splitCell_def)
  next
    case False
    with Some show ?thesis
      by (simp add: splitCell_def split_nl_single indexed_def Let_def)
  qed
qed

text \<open>
  The second loop of \<open>buildTableRows\<close> passes over every \<open>TableSeparator\<close>: none is
  among the rows it returns, and the branch of \<open>render\<close> for a separator is never taken.
\<close>

lemma collectTableRows_no_separator: "Some SeparatorRow \<notin> set (collectTableRows rs um)"
proof -
  have "Some SeparatorRow \<noteq> map_option Cells x" for x by (cases x) auto
  then show ?thesis
    by (auto simp: collectTableRows_def split: rowInput.splits option.splits)
qed

lemma buildTableRows_no_separator:
  "buildTableRows n rs = Some (Inr built) \<Longrightarrow> Some SeparatorRow \<notin> set built"
  by (auto simp: buildTableRows_def collectTableRows_no_separator
        split: option.splits sum.splits)

text \<open>
  Claim C1 at its failing input. A row with the one cell \<open>a\<close>, line break, \<open>b\<close>
  comes back from \<open>buildTableRows\<close> as it went in: one row, the cell unsplit, where
  the claim has a row \<open>a\<close> followed by a new row \<open>b\<close>. The same holds for a
  \<open>TableCell\<close> of colspan 2, which only gets its filler cell.
\<close>

theorem buildTableRows_multiline_failing_input:
  "buildTableRows 1 [Cells [Some (Str [CHR ''a'', nl, CHR ''b''])]]
     = Some (Inr [Some (Cells [Some (Str [CHR ''a'', nl, CHR ''b''])])])
   \<and> buildTableRows 2 [Cells [Some (TableCell [CHR ''a'', nl, CHR ''b''] 1 2)]]
     = Some (Inr [Some (Cells [Some (TableCell [CHR ''a'', nl, CHR ''b''] 1 2), Some (Str [])])])"
  by code_simp

text \<open>
  Claim C2 at its failing input. For the rows \<open>a\<close>, \<open>TableSeparator\<close>, \<open>b\<close> under the
  default style, \<open>render\<close> writes four lines: the top border, the row \<open>a\<close>, the row
  \<open>b\<close> and the bottom border. The horizontal rule between the two rows is missing.
\<close>

theorem render_separator_failing_input:
  "render \<lparr>headers = [],
           rows = [Cells [Some (Str ''a'')], SeparatorRow, Cells [Some (Str ''b'')]],
           style = \<lparr>horizontalBorderChar = ''-'', crossingChar = ''+'',
                    cellHeaderFormat = ''<info>%s</info>'', cellRowFormat = ''%s''\<rparr>\<rparr>
     = Some ([RowSeparator, Row [Some (Str ''a'')] ''%s'', Row [Some (Str ''b'')] ''%s'',
              RowSeparator], None)"
  by code_simp

end
